theory Spec2Isabelle
  imports Main "HOL-Library.Word"
begin

unbundle bit_operations_syntax

section \<open>The HSDK PLL clock driver (drivers/clk/hsdk-clk.c)\<close>

subsection \<open>Machine types\<close>

text \<open>
  \<open>u32\<close> and \<open>u64\<close> are the fixed-width types of the source. C's \<open>int\<close> is a 32-bit
  word read with \<open>sint\<close>. The width of \<open>unsigned long\<close> (\<open>ulong\<close>) is not fixed by the
  driver: it is the type variable \<open>'l\<close> of the functions below (32 bits on the ARC HS
  cores of the HSDK board, 64 bits on an LP64 host). Arithmetic on words wraps.
\<close>

type_synonym u32 = "32 word"
type_synonym u64 = "64 word"
type_synonym cint = "32 word"

subsection \<open>Register layout and constants\<close>

definition CGU_PLL_CTRL :: u32 where "CGU_PLL_CTRL = 0x000"
definition CGU_PLL_STATUS :: u32 where "CGU_PLL_STATUS = 0x004"
definition CGU_PLL_FMEAS :: u32 where "CGU_PLL_FMEAS = 0x008"
definition CGU_PLL_MON :: u32 where "CGU_PLL_MON = 0x00C"

definition CGU_PLL_CTRL_ODIV_SHIFT :: nat where "CGU_PLL_CTRL_ODIV_SHIFT = 2"
definition CGU_PLL_CTRL_IDIV_SHIFT :: nat where "CGU_PLL_CTRL_IDIV_SHIFT = 4"
definition CGU_PLL_CTRL_FBDIV_SHIFT :: nat where "CGU_PLL_CTRL_FBDIV_SHIFT = 9"
definition CGU_PLL_CTRL_BAND_SHIFT :: nat where "CGU_PLL_CTRL_BAND_SHIFT = 20"

text \<open>
  Modelled from the spec: the macros \<open>GENMASK(h, l)\<close> and \<open>BIT(n)\<close> come from headers
  that are not under src/. The spec's register layout gives the fields as bit ranges
  (idiv bits 8..4, fbdiv bits 15..9, odiv bits 3..2; bit 0 powerdown, bit 1 bypass):
  \<open>GENMASK h l\<close> is the word whose bits \<open>l..h\<close> are set, \<open>BIT n\<close> the word whose bit
  \<open>n\<close> is set.
\<close>

definition GENMASK :: "nat \<Rightarrow> nat \<Rightarrow> u32" where
  "GENMASK h l = push_bit l (- 1) AND drop_bit (32 - 1 - h) (- 1)"

definition BIT :: "nat \<Rightarrow> u32" where
  "BIT n = push_bit n 1"

definition CGU_PLL_CTRL_ODIV_MASK :: u32 where
  "CGU_PLL_CTRL_ODIV_MASK = GENMASK 3 CGU_PLL_CTRL_ODIV_SHIFT"
definition CGU_PLL_CTRL_IDIV_MASK :: u32 where
  "CGU_PLL_CTRL_IDIV_MASK = GENMASK 8 CGU_PLL_CTRL_IDIV_SHIFT"
definition CGU_PLL_CTRL_FBDIV_MASK :: u32 where
  "CGU_PLL_CTRL_FBDIV_MASK = GENMASK 15 CGU_PLL_CTRL_FBDIV_SHIFT"

definition CGU_PLL_CTRL_PD :: u32 where "CGU_PLL_CTRL_PD = BIT 0"
definition CGU_PLL_CTRL_BYPASS :: u32 where "CGU_PLL_CTRL_BYPASS = BIT 1"

definition CGU_PLL_STATUS_LOCK :: u32 where "CGU_PLL_STATUS_LOCK = BIT 0"
definition CGU_PLL_STATUS_ERR :: u32 where "CGU_PLL_STATUS_ERR = BIT 1"

definition HSDK_PLL_MAX_LOCK_TIME :: nat where "HSDK_PLL_MAX_LOCK_TIME = 100"

definition CREG_CORE_IF_DIV :: u32 where "CREG_CORE_IF_DIV = 0x000"
definition CORE_IF_CLK_THRESHOLD_HZ :: "'l::len word" where
  "CORE_IF_CLK_THRESHOLD_HZ = 500000000"
definition CREG_CORE_IF_CLK_DIV_1 :: u32 where "CREG_CORE_IF_CLK_DIV_1 = 0x0"
definition CREG_CORE_IF_CLK_DIV_2 :: u32 where "CREG_CORE_IF_CLK_DIV_2 = 0x1"

definition PARENT_RATE :: "'l::len word" where
  "PARENT_RATE = 33333333"

text \<open>
  Modelled from the spec: the error numbers come from errno.h, which is not under
  src/. The spec names the failures only (InvalidConfiguration and HardwareError for
  \<open>-EINVAL\<close>, LockTimeout for \<open>-ETIMEDOUT\<close>, ConstructionError for \<open>-ENOENT\<close>); the
  numbers are the usual ones. A function fails by returning the negated number.
\<close>

definition ENOENT :: "'l::len word" where "ENOENT = 2"
definition EINVAL :: "'l::len word" where "EINVAL = 22"
definition ETIMEDOUT :: "'l::len word" where "ETIMEDOUT = 110"

subsection \<open>Rate tables\<close>

record hsdk_pll_cfg =
  rate :: u32
  idiv :: u32
  fbdiv :: u32
  odiv :: u32
  band :: u32

definition cfg :: "u32 \<Rightarrow> u32 \<Rightarrow> u32 \<Rightarrow> u32 \<Rightarrow> u32 \<Rightarrow> hsdk_pll_cfg" where
  "cfg r i f d b = \<lparr>rate = r, idiv = i, fbdiv = f, odiv = d, band = b\<rparr>"

text \<open>The empty initialiser \<open>{}\<close> that ends each table: every field is zero.\<close>

definition cfg_end :: hsdk_pll_cfg where
  "cfg_end = cfg 0 0 0 0 0"

definition asdt_pll_cfg :: "hsdk_pll_cfg list" where
  "asdt_pll_cfg =
    [ cfg 100000000 0 11 3 0,
      cfg 133000000 0 15 3 0,
      cfg 200000000 1 47 3 0,
      cfg 233000000 1 27 2 0,
      cfg 300000000 1 35 2 0,
      cfg 333000000 1 39 2 0,
      cfg 400000000 1 47 2 0,
      cfg 500000000 0 14 1 0,
      cfg 600000000 0 17 1 0,
      cfg 700000000 0 20 1 0,
      cfg 800000000 0 23 1 0,
      cfg 900000000 1 26 0 0,
      cfg 1000000000 1 29 0 0,
      cfg 1100000000 1 32 0 0,
      cfg 1200000000 1 35 0 0,
      cfg 1300000000 1 38 0 0,
      cfg 1400000000 1 41 0 0,
      cfg 1500000000 1 44 0 0,
      cfg 1600000000 1 47 0 0,
      cfg_end ]"

definition hdmi_pll_cfg :: "hsdk_pll_cfg list" where
  "hdmi_pll_cfg =
    [ cfg 297000000 0 21 2 0,
      cfg 540000000 0 19 1 0,
      cfg 594000000 0 21 1 0,
      cfg_end ]"

text \<open>
  The loops of the driver walk a table until the first entry whose rate is zero. A
  table is a list; a list that lacks the terminating entry is read as if that entry
  followed it. \<open>table_entries\<close> are the entries the loops can reach, and a table is
  empty in the driver's sense when its first entry is already the terminator.
\<close>

definition table_entries :: "hsdk_pll_cfg list \<Rightarrow> hsdk_pll_cfg list" where
  "table_entries pll_cfg = takeWhile (\<lambda>c. rate c \<noteq> 0) pll_cfg"

subsection \<open>Instances and variants\<close>

text \<open>
  \<open>update_rate\<close> of \<open>struct hsdk_pll_devdata\<close> is a function pointer with two possible
  targets; the model stores which one. A register base is an address, 0 the null
  pointer.
\<close>

datatype update_rate_fn = Core_update_rate | Comm_update_rate

record hsdk_pll_devdata =
  pll_cfg :: "hsdk_pll_cfg list"
  update_rate :: update_rate_fn

record hsdk_pll_clk =
  regs :: u32
  spec_regs :: u32
  pll_devdata :: hsdk_pll_devdata

definition core_pll_devdata :: hsdk_pll_devdata where
  "core_pll_devdata = \<lparr>pll_cfg = asdt_pll_cfg, update_rate = Core_update_rate\<rparr>"

definition sdt_pll_devdata :: hsdk_pll_devdata where
  "sdt_pll_devdata = \<lparr>pll_cfg = asdt_pll_cfg, update_rate = Comm_update_rate\<rparr>"

definition hdmi_pll_devdata :: hsdk_pll_devdata where
  "hdmi_pll_devdata = \<lparr>pll_cfg = hdmi_pll_cfg, update_rate = Comm_update_rate\<rparr>"

subsection \<open>Memory-mapped registers\<close>

text \<open>
  Modelled from the spec: \<open>iowrite32\<close>, \<open>ioread32\<close> and \<open>udelay\<close> are not under src/.
  The spec takes them as a register-access capability over two register blocks that
  share no space, and a blocking delay. The state holds the last value written at each
  offset of the main block (\<open>clk->regs\<close>) and of the auxiliary block
  (\<open>clk->spec_regs\<close>), and the chronological trace of every access. The status
  register is set by the hardware: its n-th read returns \<open>pll_status n\<close>, any function
  of n. \<open>Pr_err\<close> records the error message of \<open>hsdk_pll_set_rate\<close>.
\<close>

datatype io_event =
    Pll_write u32 u32
  | Pll_read u32 u32
  | Spc_write u32 u32
  | Spc_read u32 u32
  | Udelay nat
  | Pr_err

record hsdk_io =
  pll_regs :: "u32 \<Rightarrow> u32"
  creg_regs :: "u32 \<Rightarrow> u32"
  pll_status :: "nat \<Rightarrow> u32"
  status_reads :: nat
  io_trace :: "io_event list"

definition emit :: "io_event \<Rightarrow> hsdk_io \<Rightarrow> hsdk_io" where
  "emit e s = s\<lparr>io_trace := io_trace s @ [e]\<rparr>"

definition hsdk_pll_write :: "hsdk_pll_clk \<Rightarrow> u32 \<Rightarrow> u32 \<Rightarrow> hsdk_io \<Rightarrow> hsdk_io" where
  "hsdk_pll_write clk reg val s =
     emit (Pll_write reg val) (s\<lparr>pll_regs := (pll_regs s)(reg := val)\<rparr>)"

definition hsdk_pll_read :: "hsdk_pll_clk \<Rightarrow> u32 \<Rightarrow> hsdk_io \<Rightarrow> u32 \<times> hsdk_io" where
  "hsdk_pll_read clk reg s =
     (if reg = CGU_PLL_STATUS
      then (let val = pll_status s (status_reads s)
            in (val, emit (Pll_read reg val) (s\<lparr>status_reads := Suc (status_reads s)\<rparr>)))
      else (let val = pll_regs s reg
            in (val, emit (Pll_read reg val) s)))"

definition hsdk_pll_spcwrite :: "hsdk_pll_clk \<Rightarrow> u32 \<Rightarrow> u32 \<Rightarrow> hsdk_io \<Rightarrow> hsdk_io" where
  "hsdk_pll_spcwrite clk reg val s =
     emit (Spc_write reg val) (s\<lparr>creg_regs := (creg_regs s)(reg := val)\<rparr>)"

definition hsdk_pll_spcread :: "hsdk_pll_clk \<Rightarrow> u32 \<Rightarrow> hsdk_io \<Rightarrow> u32 \<times> hsdk_io" where
  "hsdk_pll_spcread clk reg s =
     (let val = creg_regs s reg in (val, emit (Spc_read reg val) s))"

definition udelay :: "nat \<Rightarrow> hsdk_io \<Rightarrow> hsdk_io" where
  "udelay usec s = emit (Udelay usec) s"

subsection \<open>Register codec\<close>

text \<open>
  \<open>hsdk_pll_set_cfg\<close> builds the control word \<open>val\<close> of a table entry (with the
  powerdown and bypass bits clear) and writes it to the control register.
\<close>

definition set_cfg_val :: "hsdk_pll_cfg \<Rightarrow> u32" where
  "set_cfg_val c =
     (let val = 0;
          val = val OR push_bit CGU_PLL_CTRL_IDIV_SHIFT (idiv c);
          val = val OR push_bit CGU_PLL_CTRL_FBDIV_SHIFT (fbdiv c);
          val = val OR push_bit CGU_PLL_CTRL_ODIV_SHIFT (odiv c);
          val = val OR push_bit CGU_PLL_CTRL_BAND_SHIFT (band c)
      in val)"

definition hsdk_pll_set_cfg :: "hsdk_pll_clk \<Rightarrow> hsdk_pll_cfg \<Rightarrow> hsdk_io \<Rightarrow> hsdk_io" where
  "hsdk_pll_set_cfg clk c s = hsdk_pll_write clk CGU_PLL_CTRL (set_cfg_val c) s"

definition hsdk_pll_is_locked :: "hsdk_pll_clk \<Rightarrow> hsdk_io \<Rightarrow> bool \<times> hsdk_io" where
  "hsdk_pll_is_locked clk s =
     (let (val, s') = hsdk_pll_read clk CGU_PLL_STATUS s
      in (val AND CGU_PLL_STATUS_LOCK \<noteq> 0, s'))"

definition hsdk_pll_is_err :: "hsdk_pll_clk \<Rightarrow> hsdk_io \<Rightarrow> bool \<times> hsdk_io" where
  "hsdk_pll_is_err clk s =
     (let (val, s') = hsdk_pll_read clk CGU_PLL_STATUS s
      in (val AND CGU_PLL_STATUS_ERR \<noteq> 0, s'))"

text \<open>
  Modelled from the spec: \<open>do_div(n, base)\<close> is a macro of div64.h, which is not under
  src/. The spec gives the decoded rate as the floor of the 64-bit product divided by
  \<open>idiv * odiv\<close>: \<open>do_div\<close> replaces the 64-bit \<open>n\<close> by \<open>n / base\<close> for a 32-bit
  \<open>base\<close>. A zero \<open>base\<close> is a division by zero, which the model returns as \<open>None\<close>.
\<close>

definition do_div :: "u64 \<Rightarrow> u32 \<Rightarrow> u64 option" where
  "do_div n base = (if base = 0 then None else Some (n div ucast base))"

text \<open>The three dividers \<open>hsdk_pll_get_rate\<close> computes from the control word \<open>val\<close>.\<close>

definition get_rate_idiv :: "u32 \<Rightarrow> u32" where
  "get_rate_idiv val =
     1 + drop_bit CGU_PLL_CTRL_IDIV_SHIFT (val AND CGU_PLL_CTRL_IDIV_MASK)"

definition get_rate_fbdiv :: "u32 \<Rightarrow> u32" where
  "get_rate_fbdiv val =
     2 * (1 + drop_bit CGU_PLL_CTRL_FBDIV_SHIFT (val AND CGU_PLL_CTRL_FBDIV_MASK))"

definition get_rate_odiv :: "u32 \<Rightarrow> u32" where
  "get_rate_odiv val =
     push_bit (unat (drop_bit CGU_PLL_CTRL_ODIV_SHIFT (val AND CGU_PLL_CTRL_ODIV_MASK))) 1"

text \<open>
  \<open>hsdk_pll_get_rate\<close> reads the control register and decodes it. The result is
  \<open>None\<close> where the C code would divide by zero; otherwise the 64-bit quotient,
  converted to \<open>ulong\<close> by the return.
\<close>

definition hsdk_pll_get_rate :: "hsdk_pll_clk \<Rightarrow> hsdk_io \<Rightarrow> 'l::len word option \<times> hsdk_io" where
  "hsdk_pll_get_rate clk s =
     (let (val, s') = hsdk_pll_read clk CGU_PLL_CTRL s
      in if val AND CGU_PLL_CTRL_PD \<noteq> 0 then (Some 0, s')
         else if val AND CGU_PLL_CTRL_BYPASS \<noteq> 0 then (Some PARENT_RATE, s')
         else (let idiv = get_rate_idiv val;
                   fbdiv = get_rate_fbdiv val;
                   odiv = get_rate_odiv val;
                   rate = (PARENT_RATE :: u64) * ucast fbdiv
               in (map_option ucast (do_div rate (idiv * odiv)), s')))"

subsection \<open>Rate matcher\<close>

text \<open>
  Modelled from the spec: \<open>abs\<close> is a macro of common.h, which is not under src/. The
  spec calls its result the absolute difference. Its argument in the driver is the
  \<open>unsigned long\<close> difference \<open>rate - pll_cfg[i].rate\<close>, computed with wrap-around;
  the macro reads it as a \<open>long\<close> and negates it when it is negative, and the two
  results are compared as \<open>long\<close> values.
\<close>

definition abs_long :: "'l::len word \<Rightarrow> 'l word" where
  "abs_long x = (if x <s 0 then - x else x)"

text \<open>The loop of \<open>hsdk_pll_round_rate\<close>, over the entries from index 1 on.\<close>

fun round_rate_loop :: "hsdk_pll_cfg list \<Rightarrow> 'l::len word \<Rightarrow> 'l word \<Rightarrow> 'l word" where
  "round_rate_loop [] r best_rate = best_rate"
| "round_rate_loop (c # cs) r best_rate =
     (if rate c = 0 then best_rate
      else round_rate_loop cs r
             (if abs_long (r - ucast (rate c)) <s abs_long (r - best_rate)
              then ucast (rate c) else best_rate))"

definition hsdk_pll_round_rate :: "hsdk_pll_clk \<Rightarrow> 'l::len word \<Rightarrow> 'l word" where
  "hsdk_pll_round_rate clk r =
     (case pll_cfg (pll_devdata clk) of
        [] \<Rightarrow> - EINVAL
      | c0 # cs \<Rightarrow>
          if rate c0 = 0 then - EINVAL
          else round_rate_loop cs r (ucast (rate c0)))"

subsection \<open>Sequencer\<close>

definition hsdk_pll_comm_update_rate ::
  "hsdk_pll_clk \<Rightarrow> 'l::len word \<Rightarrow> hsdk_pll_cfg \<Rightarrow> hsdk_io \<Rightarrow> cint \<times> hsdk_io" where
  "hsdk_pll_comm_update_rate clk r c s =
     (let s1 = hsdk_pll_set_cfg clk c s;
          s2 = udelay HSDK_PLL_MAX_LOCK_TIME s1;
          (locked, s3) = hsdk_pll_is_locked clk s2
      in if \<not> locked then (- ETIMEDOUT, s3)
         else (let (err, s4) = hsdk_pll_is_err clk s3
               in if err then (- EINVAL, s4)
                  else (0, s4)))"

definition hsdk_pll_core_update_rate ::
  "hsdk_pll_clk \<Rightarrow> 'l::len word \<Rightarrow> hsdk_pll_cfg \<Rightarrow> hsdk_io \<Rightarrow> cint \<times> hsdk_io" where
  "hsdk_pll_core_update_rate clk r c s =
     (let s0 = (if r > CORE_IF_CLK_THRESHOLD_HZ
                then hsdk_pll_spcwrite clk CREG_CORE_IF_DIV CREG_CORE_IF_CLK_DIV_2 s
                else s);
          s1 = hsdk_pll_set_cfg clk c s0;
          s2 = udelay HSDK_PLL_MAX_LOCK_TIME s1;
          (locked, s3) = hsdk_pll_is_locked clk s2
      in if \<not> locked then (- ETIMEDOUT, s3)
         else (let (err, s4) = hsdk_pll_is_err clk s3
               in if err then (- EINVAL, s4)
                  else (0, if r \<le> CORE_IF_CLK_THRESHOLD_HZ
                           then hsdk_pll_spcwrite clk CREG_CORE_IF_DIV CREG_CORE_IF_CLK_DIV_1 s4
                           else s4)))"

text \<open>The call through the function pointer \<open>clk->pll_devdata->update_rate\<close>.\<close>

definition call_update_rate ::
  "hsdk_pll_clk \<Rightarrow> 'l::len word \<Rightarrow> hsdk_pll_cfg \<Rightarrow> hsdk_io \<Rightarrow> cint \<times> hsdk_io" where
  "call_update_rate clk r c s =
     (case update_rate (pll_devdata clk) of
        Core_update_rate \<Rightarrow> hsdk_pll_core_update_rate clk r c s
      | Comm_update_rate \<Rightarrow> hsdk_pll_comm_update_rate clk r c s)"

text \<open>
  The loop of \<open>hsdk_pll_set_rate\<close>, from index 0 on, with the code after it: the
  \<open>int\<close> that \<open>update_rate\<close> returns is converted to \<open>ulong\<close> by the return
  (sign-extended where \<open>ulong\<close> is wider).
\<close>

fun set_rate_loop ::
  "hsdk_pll_clk \<Rightarrow> hsdk_pll_cfg list \<Rightarrow> 'l::len word \<Rightarrow> hsdk_io \<Rightarrow> 'l word \<times> hsdk_io" where
  "set_rate_loop clk [] best_rate s = (- EINVAL, emit Pr_err s)"
| "set_rate_loop clk (c # cs) best_rate s =
     (if rate c = 0 then (- EINVAL, emit Pr_err s)
      else if ucast (rate c) = best_rate
      then (let (ret, s') = call_update_rate clk best_rate c s in (scast ret, s'))
      else set_rate_loop clk cs best_rate s)"

definition hsdk_pll_set_rate :: "hsdk_pll_clk \<Rightarrow> 'l::len word \<Rightarrow> hsdk_io \<Rightarrow> 'l word \<times> hsdk_io" where
  "hsdk_pll_set_rate clk r s =
     (let best_rate = hsdk_pll_round_rate clk r
      in set_rate_loop clk (pll_cfg (pll_devdata clk)) best_rate s)"

subsection \<open>Probe\<close>

text \<open>
  Modelled from the spec: \<open>dev_get_driver_data\<close> and \<open>devfdt_get_addr_index\<close> are not
  under src/. The spec takes their results as construction-time inputs: the variant
  descriptor, the main register base and the auxiliary register base, which may be
  absent. They are the parameters \<open>data\<close>, \<open>addr0\<close> and \<open>addr1\<close>; an absent base is
  the null pointer the probe tests for. The probe compares the descriptor's address
  with that of \<open>core_pll_devdata\<close>; the three descriptors differ in their contents, so
  the model compares the contents. The result is the \<open>int\<close> returned and the private
  data as the probe left it.
\<close>

definition hsdk_pll_clk_probe ::
  "hsdk_pll_devdata \<Rightarrow> u32 \<Rightarrow> u32 \<Rightarrow> cint \<times> hsdk_pll_clk" where
  "hsdk_pll_clk_probe data addr0 addr1 =
     (let pll_clk = \<lparr>regs = addr0, spec_regs = addr1, pll_devdata = data\<rparr>
      in if pll_devdata pll_clk = core_pll_devdata \<and> spec_regs pll_clk = 0
         then (- ENOENT, pll_clk)
         else (0, pll_clk))"

subsection \<open>Observing a run\<close>

text \<open>
  \<open>emitted s s'\<close> are the accesses a run from \<open>s\<close> to \<open>s'\<close> appended to the trace.
  \<open>status0 s\<close> and \<open>status1 s\<close> are the values the hardware shows at the next two
  reads of the status register: \<open>hsdk_pll_is_locked\<close> sees the first,
  \<open>hsdk_pll_is_err\<close> the second.
\<close>

definition emitted :: "hsdk_io \<Rightarrow> hsdk_io \<Rightarrow> io_event list" where
  "emitted s s' = drop (length (io_trace s)) (io_trace s')"

definition status0 :: "hsdk_io \<Rightarrow> u32" where
  "status0 s = pll_status s (status_reads s)"

definition status1 :: "hsdk_io \<Rightarrow> u32" where
  "status1 s = pll_status s (Suc (status_reads s))"

text \<open>
  Instances of the three variants (only the core one has an auxiliary base), and a
  hardware state after reset whose status register shows \<open>st0\<close> at its first read and
  \<open>st1\<close> at every later one.
\<close>

definition core_clk :: hsdk_pll_clk where
  "core_clk = \<lparr>regs = 0xF0000000, spec_regs = 0xF0001000, pll_devdata = core_pll_devdata\<rparr>"

definition sdt_clk :: hsdk_pll_clk where
  "sdt_clk = \<lparr>regs = 0xF0000010, spec_regs = 0, pll_devdata = sdt_pll_devdata\<rparr>"

definition hdmi_clk :: hsdk_pll_clk where
  "hdmi_clk = \<lparr>regs = 0xF0000040, spec_regs = 0, pll_devdata = hdmi_pll_devdata\<rparr>"

definition io_reset :: "u32 \<Rightarrow> u32 \<Rightarrow> hsdk_io" where
  "io_reset st0 st1 =
     \<lparr>pll_regs = (\<lambda>_. 0), creg_regs = (\<lambda>_. 0),
      pll_status = (\<lambda>n. if n = 0 then st0 else st1),
      status_reads = 0, io_trace = []\<rparr>"

text \<open>
  The distance between a requested rate and a candidate, as integers: \<open>long_dist\<close>
  for a candidate held in an \<open>unsigned long\<close>, \<open>rate_dist\<close> for a table entry.
\<close>

definition long_dist :: "'l::len word \<Rightarrow> 'l word \<Rightarrow> int" where
  "long_dist r x = \<bar>uint r - uint x\<bar>"

definition rate_dist :: "'l::len word \<Rightarrow> hsdk_pll_cfg \<Rightarrow> int" where
  "rate_dist r c = \<bar>uint r - uint (rate c)\<bar>"

section \<open>Properties\<close>

subsection \<open>Register fields\<close>

lemma mask_values:
  "CGU_PLL_CTRL_ODIV_MASK = 0xC" "CGU_PLL_CTRL_IDIV_MASK = 0x1F0" "CGU_PLL_CTRL_FBDIV_MASK = 0xFE00"
  by (simp_all add: CGU_PLL_CTRL_ODIV_MASK_def CGU_PLL_CTRL_IDIV_MASK_def CGU_PLL_CTRL_FBDIV_MASK_def
      GENMASK_def CGU_PLL_CTRL_ODIV_SHIFT_def CGU_PLL_CTRL_IDIV_SHIFT_def CGU_PLL_CTRL_FBDIV_SHIFT_def
      mask_eq_exp_minus_1)

lemma idiv_field_le: "unat (drop_bit 4 (val AND 0x1F0 :: u32)) \<le> 31"
proof -
  have "val AND 0x1F0 \<le> 0x1F0" by (rule word_and_le1)
  then have "unat (val AND 0x1F0) \<le> 496" by (simp add: word_le_nat_alt)
  then show ?thesis by (simp add: drop_bit_eq_div unat_div)
qed

lemma odiv_field_le: "unat (drop_bit 2 (val AND 0xC :: u32)) \<le> 3"
proof -
  have "val AND 0xC \<le> 0xC" by (rule word_and_le1)
  then have "unat (val AND 0xC) \<le> 12" by (simp add: word_le_nat_alt)
  then show ?thesis by (simp add: drop_bit_eq_div unat_div)
qed

lemma unat_get_rate_idiv:
  "unat (get_rate_idiv val) = 1 + unat (drop_bit 4 (val AND 0x1F0))"
  using idiv_field_le [of val]
  by (simp add: get_rate_idiv_def mask_values CGU_PLL_CTRL_IDIV_SHIFT_def unat_word_ariths)

lemma unat_two_power_u32: "k \<le> 3 \<Longrightarrow> unat ((2::u32) ^ k) = 2 ^ k"
proof -
  assume k: "k \<le> 3"
  have "(2::nat) ^ k \<le> 2 ^ 3" using k by (intro power_increasing) simp_all
  then have lt: "(2::nat) ^ k < 2 ^ 32" by simp
  have "(2::u32) ^ k = of_nat (2 ^ k)" by simp
  then have "unat ((2::u32) ^ k) = (2 ^ k) mod 2 ^ 32" by (simp only: unat_of_nat) simp
  with lt show ?thesis by simp
qed

lemma unat_get_rate_odiv:
  "unat (get_rate_odiv val) = 2 ^ unat (drop_bit 2 (val AND 0xC))"
  using unat_two_power_u32 [OF odiv_field_le [of val]]
  by (simp add: get_rate_odiv_def mask_values CGU_PLL_CTRL_ODIV_SHIFT_def push_bit_eq_mult)

lemma unat_divisor:
  "unat (get_rate_idiv val * get_rate_odiv val) = unat (get_rate_idiv val) * unat (get_rate_odiv val)"
proof -
  let ?k = "unat (drop_bit 2 (val AND 0xC))"
  have k: "?k \<le> 3" by (rule odiv_field_le)
  have "(2::nat) ^ ?k \<le> 2 ^ 3" using k by (intro power_increasing) simp_all
  then have o: "unat (get_rate_odiv val) \<le> 8" by (simp add: unat_get_rate_odiv)
  have i: "unat (get_rate_idiv val) \<le> 32" using idiv_field_le [of val] by (simp add: unat_get_rate_idiv)
  have "unat (get_rate_idiv val) * unat (get_rate_odiv val) \<le> 32 * 8"
    using i o by (rule mult_le_mono)
  then show ?thesis by (simp add: unat_word_ariths)
qed

lemma divisor_nonzero: "get_rate_idiv val * get_rate_odiv val \<noteq> 0"
proof -
  have "0 < unat (get_rate_idiv val) * unat (get_rate_odiv val)"
    by (simp add: unat_get_rate_idiv unat_get_rate_odiv)
  then have "unat (get_rate_idiv val * get_rate_odiv val) \<noteq> 0" by (simp add: unat_divisor)
  then show ?thesis by (simp add: unat_eq_0)
qed

lemma and_BIT_iff: "(val AND BIT n \<noteq> 0) = bit val n"
  unfolding BIT_def by (simp add: push_bit_eq_mult and_exp_eq_0_iff_not_bit)

lemma scast_neg_errno:
  "scast (- ETIMEDOUT :: cint) = (- ETIMEDOUT :: 'l::len word)"
  "scast (- EINVAL :: cint) = (- EINVAL :: 'l::len word)"
  by (simp_all add: ETIMEDOUT_def EINVAL_def scast_eq)

subsection \<open>The sequencer, step by step\<close>

text \<open>
  What each update function returns, which accesses it appends to the trace and what
  it leaves in the control register, as functions of the two status values.
\<close>

lemmas io_defs = emit_def hsdk_pll_write_def hsdk_pll_read_def hsdk_pll_spcwrite_def udelay_def
  hsdk_pll_set_cfg_def hsdk_pll_is_locked_def hsdk_pll_is_err_def CGU_PLL_STATUS_def CGU_PLL_CTRL_def
  status0_def status1_def

lemma comm_update_rate_ret:
  "fst (hsdk_pll_comm_update_rate clk r c s) =
     (if status0 s AND CGU_PLL_STATUS_LOCK = 0 then - ETIMEDOUT
      else if status1 s AND CGU_PLL_STATUS_ERR \<noteq> 0 then - EINVAL else 0)"
  by (simp add: hsdk_pll_comm_update_rate_def io_defs Let_def split: prod.splits)

lemma core_update_rate_ret:
  "fst (hsdk_pll_core_update_rate clk r c s) =
     (if status0 s AND CGU_PLL_STATUS_LOCK = 0 then - ETIMEDOUT
      else if status1 s AND CGU_PLL_STATUS_ERR \<noteq> 0 then - EINVAL else 0)"
  by (simp add: hsdk_pll_core_update_rate_def io_defs Let_def split: prod.splits)

lemma comm_update_rate_trace:
  "io_trace (snd (hsdk_pll_comm_update_rate clk r c s)) =
     io_trace s @
     [Pll_write CGU_PLL_CTRL (set_cfg_val c), Udelay HSDK_PLL_MAX_LOCK_TIME,
      Pll_read CGU_PLL_STATUS (status0 s)] @
     (if status0 s AND CGU_PLL_STATUS_LOCK = 0 then []
      else [Pll_read CGU_PLL_STATUS (status1 s)])"
  by (simp add: hsdk_pll_comm_update_rate_def io_defs Let_def split: prod.splits)

lemma core_update_rate_trace:
  "io_trace (snd (hsdk_pll_core_update_rate clk r c s)) =
     io_trace s @
     (if r > CORE_IF_CLK_THRESHOLD_HZ
      then [Spc_write CREG_CORE_IF_DIV CREG_CORE_IF_CLK_DIV_2] else []) @
     [Pll_write CGU_PLL_CTRL (set_cfg_val c), Udelay HSDK_PLL_MAX_LOCK_TIME,
      Pll_read CGU_PLL_STATUS (status0 s)] @
     (if status0 s AND CGU_PLL_STATUS_LOCK = 0 then []
      else Pll_read CGU_PLL_STATUS (status1 s) #
           (if status1 s AND CGU_PLL_STATUS_ERR \<noteq> 0 then []
            else if r \<le> CORE_IF_CLK_THRESHOLD_HZ
                 then [Spc_write CREG_CORE_IF_DIV CREG_CORE_IF_CLK_DIV_1] else []))"
  by (simp add: hsdk_pll_core_update_rate_def io_defs Let_def split: prod.splits)

lemma comm_update_rate_regs:
  "pll_regs (snd (hsdk_pll_comm_update_rate clk r c s)) = (pll_regs s)(CGU_PLL_CTRL := set_cfg_val c)"
  by (simp add: hsdk_pll_comm_update_rate_def io_defs Let_def split: prod.splits)

lemma core_update_rate_regs:
  "pll_regs (snd (hsdk_pll_core_update_rate clk r c s)) = (pll_regs s)(CGU_PLL_CTRL := set_cfg_val c)"
  by (simp add: hsdk_pll_core_update_rate_def io_defs Let_def split: prod.splits)

subsection \<open>The matcher returns a rate of the table\<close>

text \<open>
  \<open>best_rate\<close> is only ever assigned a rate of an entry before the terminator, so the
  lookup of \<open>hsdk_pll_set_rate\<close> finds an entry and calls \<open>update_rate\<close> for it.
\<close>

lemma round_rate_loop_in:
  "round_rate_loop cs r b = b \<or> round_rate_loop cs r b \<in> (\<lambda>c. ucast (rate c)) ` set (table_entries cs)"
proof (induction cs arbitrary: b)
  case Nil
  then show ?case by simp
next
  case (Cons c cs)
  show ?case
  proof (cases "rate c = 0")
    case True
    then show ?thesis by simp
  next
    case False
    let ?b' = "if abs_long (r - ucast (rate c)) <s abs_long (r - b) then ucast (rate c) else b"
    from Cons.IH [of ?b'] False show ?thesis
      by (auto simp: table_entries_def)
  qed
qed

lemma round_rate_in_table:
  assumes "pll_cfg (pll_devdata clk) = c0 # cs" and "rate c0 \<noteq> 0"
  shows "hsdk_pll_round_rate clk r \<in> (\<lambda>c. ucast (rate c)) ` set (table_entries (pll_cfg (pll_devdata clk)))"
  using assms round_rate_loop_in [of cs r "ucast (rate c0)"]
  by (auto simp: hsdk_pll_round_rate_def table_entries_def)

lemma set_rate_loop_found:
  "best \<in> (\<lambda>c. ucast (rate c)) ` set (table_entries tbl) \<Longrightarrow>
   \<exists>c \<in> set (table_entries tbl). ucast (rate c) = best \<and>
     set_rate_loop clk tbl best s =
       (case call_update_rate clk best c s of (ret, s') \<Rightarrow> (scast ret, s'))"
proof (induction tbl)
  case Nil
  then show ?case by (simp add: table_entries_def)
next
  case (Cons c tbl)
  show ?case
  proof (cases "rate c = 0")
    case True
    with Cons.prems show ?thesis by (simp add: table_entries_def)
  next
    case nz: False
    show ?thesis
    proof (cases "ucast (rate c) = best")
      case True
      with nz show ?thesis by (auto simp: table_entries_def)
    next
      case False
      with Cons.prems nz have "best \<in> (\<lambda>c. ucast (rate c)) ` set (table_entries tbl)"
        by (auto simp: table_entries_def)
      from Cons.IH [OF this] False nz show ?thesis
        by (auto simp: table_entries_def)
    qed
  qed
qed

lemma set_rate_applies:
  assumes "pll_cfg (pll_devdata clk) = c0 # cs" and "rate c0 \<noteq> 0"
  shows "\<exists>c \<in> set (table_entries (pll_cfg (pll_devdata clk))).
           ucast (rate c) = hsdk_pll_round_rate clk r \<and>
           hsdk_pll_set_rate clk r s =
             (case call_update_rate clk (hsdk_pll_round_rate clk r) c s of
                (ret, s') \<Rightarrow> (scast ret, s'))"
  unfolding hsdk_pll_set_rate_def Let_def
  by (rule set_rate_loop_found [OF round_rate_in_table [OF assms]])

subsection \<open>Decoding the control register\<close>

lemma get_rate_some:
  "\<exists>r. fst (hsdk_pll_get_rate clk s :: 'l::len word option \<times> hsdk_io) = Some r"
  by (simp add: hsdk_pll_get_rate_def io_defs do_div_def divisor_nonzero Let_def split: prod.splits)

lemma get_rate_pd:
  "bit (pll_regs s CGU_PLL_CTRL) 0 \<Longrightarrow> fst (hsdk_pll_get_rate clk s) = Some 0"
  by (simp add: hsdk_pll_get_rate_def io_defs CGU_PLL_CTRL_PD_def and_BIT_iff Let_def)

lemma get_rate_bypass:
  "\<not> bit (pll_regs s CGU_PLL_CTRL) 0 \<Longrightarrow> bit (pll_regs s CGU_PLL_CTRL) 1 \<Longrightarrow>
   fst (hsdk_pll_get_rate clk s) = Some PARENT_RATE"
  by (simp add: hsdk_pll_get_rate_def io_defs CGU_PLL_CTRL_PD_def CGU_PLL_CTRL_BYPASS_def and_BIT_iff Let_def)

subsection \<open>The matcher picks a nearest rate while the differences fit a long\<close>

text \<open>
  For operands below half the range of the word, the wrapped difference read as a
  \<open>long\<close> is the integer difference, so \<open>abs_long\<close> gives its absolute value and the
  comparison of the loop is the comparison of distances.
\<close>

lemma sint_of_small:
  fixes a :: "'l::len word"
  assumes "uint a < 2 ^ (LENGTH('l) - Suc 0)"
  shows "sint a = uint a"
proof -
  have "- (2 ^ (LENGTH('l) - Suc 0)) \<le> (0::int)" by simp
  also have "0 \<le> uint a" by simp
  finally have "- (2 ^ (LENGTH('l) - Suc 0)) \<le> uint a" .
  then have "signed_take_bit (LENGTH('l) - Suc 0) (uint a) = uint a"
    using assms by (rule signed_take_bit_int_eq_self)
  then show ?thesis by (simp only: sint_uint)
qed

lemma sint_diff_small:
  fixes a b :: "'l::len word"
  assumes a: "uint a < 2 ^ (LENGTH('l) - Suc 0)" and b: "uint b < 2 ^ (LENGTH('l) - Suc 0)"
  shows "sint (a - b) = uint a - uint b"
proof -
  have nn: "0 \<le> uint a" "0 \<le> uint b" by simp_all
  have lo: "- (2 ^ (LENGTH('l) - Suc 0)) \<le> uint a - uint b" using nn b by linarith
  have hi: "uint a - uint b < 2 ^ (LENGTH('l) - Suc 0)" using nn a by linarith
  have "sint (a - b) = signed_take_bit (LENGTH('l) - 1) (sint a - sint b)"
    by (rule sint_word_diff)
  also have "\<dots> = signed_take_bit (LENGTH('l) - Suc 0) (uint a - uint b)"
    by (simp only: sint_of_small [OF a] sint_of_small [OF b] One_nat_def)
  also have "\<dots> = uint a - uint b"
    using lo hi by (rule signed_take_bit_int_eq_self)
  finally show ?thesis .
qed

lemma sint_abs_long_diff:
  fixes a b :: "'l::len word"
  assumes a: "uint a < 2 ^ (LENGTH('l) - Suc 0)" and b: "uint b < 2 ^ (LENGTH('l) - Suc 0)"
  shows "sint (abs_long (a - b)) = \<bar>uint a - uint b\<bar>"
proof (cases "a - b <s 0")
  case True
  then have "sint (a - b) < 0" by (simp add: word_sless_alt)
  then have neg: "uint a - uint b < 0" by (simp only: sint_diff_small [OF a b])
  have nn: "0 \<le> uint a" "0 \<le> uint b" by simp_all
  have lo: "- (2 ^ (LENGTH('l) - Suc 0)) \<le> uint b - uint a" using nn a by linarith
  have hi: "uint b - uint a < 2 ^ (LENGTH('l) - Suc 0)" using nn b by linarith
  have "sint (- (a - b)) = signed_take_bit (LENGTH('l) - 1) (- sint (a - b))"
    by (rule sint_word_minus)
  also have "\<dots> = signed_take_bit (LENGTH('l) - Suc 0) (uint b - uint a)"
    by (simp only: sint_diff_small [OF a b] One_nat_def minus_diff_eq)
  also have "\<dots> = uint b - uint a"
    using lo hi by (rule signed_take_bit_int_eq_self)
  finally have "sint (- (a - b)) = uint b - uint a" .
  with True neg show ?thesis by (simp add: abs_long_def)
next
  case False
  then have "\<not> sint (a - b) < 0" by (simp add: word_sless_alt)
  then have "0 \<le> uint a - uint b" by (simp add: sint_diff_small [OF a b])
  with False show ?thesis by (simp add: abs_long_def sint_diff_small [OF a b])
qed

lemma closer_iff:
  fixes r x b :: "'l::len word"
  assumes r: "uint r < 2 ^ (LENGTH('l) - Suc 0)" and x: "uint x < 2 ^ (LENGTH('l) - Suc 0)"
    and b: "uint b < 2 ^ (LENGTH('l) - Suc 0)"
  shows "(abs_long (r - x) <s abs_long (r - b)) = (long_dist r x < long_dist r b)"
  by (simp only: word_sless_alt sint_abs_long_diff [OF r x] sint_abs_long_diff [OF r b] long_dist_def)

lemma uint_ucast_rate:
  fixes c :: hsdk_pll_cfg
  assumes "uint (rate c) < 2 ^ (LENGTH('l::len) - Suc 0)"
  shows "uint (ucast (rate c) :: 'l word) = uint (rate c)"
proof -
  have "(2::int) ^ (LENGTH('l) - Suc 0) \<le> 2 ^ LENGTH('l)" by (intro power_increasing) simp_all
  with assms have "uint (rate c) < 2 ^ LENGTH('l)" by linarith
  then show ?thesis by (simp add: unsigned_ucast_eq take_bit_int_eq_self)
qed


lemma round_rate_loop_nearest:
  fixes r b :: "'l::len word"
  assumes r: "uint r < 2 ^ (LENGTH('l) - Suc 0)"
    and b: "uint b < 2 ^ (LENGTH('l) - Suc 0)"
    and cs: "\<forall>c \<in> set (table_entries cs). uint (rate c) < 2 ^ (LENGTH('l) - Suc 0)"
  shows "long_dist r (round_rate_loop cs r b) \<le> long_dist r b
       \<and> (\<forall>c \<in> set (table_entries cs).
             long_dist r (round_rate_loop cs r b) \<le> long_dist r (ucast (rate c)))
       \<and> (round_rate_loop cs r b = b
            \<or> (\<exists>i < length (table_entries cs).
                 round_rate_loop cs r b = ucast (rate (table_entries cs ! i))
                 \<and> long_dist r (round_rate_loop cs r b) < long_dist r b
                 \<and> (\<forall>j < i. long_dist r (round_rate_loop cs r b)
                                < long_dist r (ucast (rate (table_entries cs ! j))))))"
  using b cs
proof (induction cs arbitrary: b)
  case Nil
  then show ?case by (simp add: table_entries_def)
next
  case (Cons c cs)
  show ?case
  proof (cases "rate c = 0")
    case True
    then show ?thesis by (simp add: table_entries_def)
  next
    case nz: False
    then have te: "table_entries (c # cs) = c # table_entries cs"
      by (simp add: table_entries_def)
    let ?x = "ucast (rate c) :: 'l word"
    from Cons.prems(2) te have cb: "uint (rate c) < 2 ^ (LENGTH('l) - Suc 0)"
      and rest: "\<forall>c \<in> set (table_entries cs). uint (rate c) < 2 ^ (LENGTH('l) - Suc 0)"
      by simp_all
    have x: "uint ?x < 2 ^ (LENGTH('l) - Suc 0)"
      using cb by (simp only: uint_ucast_rate [OF cb])
    let ?b' = "if long_dist r ?x < long_dist r b then ?x else b"
    have step: "round_rate_loop (c # cs) r b = round_rate_loop cs r ?b'"
      using nz by (simp add: closer_iff [OF r x Cons.prems(1)])
    have b': "uint ?b' < 2 ^ (LENGTH('l) - Suc 0)"
      using x Cons.prems(1) by simp
    have b'b: "long_dist r ?b' \<le> long_dist r b" and b'x: "long_dist r ?b' \<le> long_dist r ?x"
      by simp_all
    note IH = Cons.IH [OF b' rest]
    let ?res = "round_rate_loop cs r ?b'"
    from IH have le: "long_dist r ?res \<le> long_dist r ?b'"
      and all: "\<forall>c \<in> set (table_entries cs). long_dist r ?res \<le> long_dist r (ucast (rate c))"
      and which: "?res = ?b' \<or> (\<exists>i < length (table_entries cs).
                 ?res = ucast (rate (table_entries cs ! i))
                 \<and> long_dist r ?res < long_dist r ?b'
                 \<and> (\<forall>j < i. long_dist r ?res < long_dist r (ucast (rate (table_entries cs ! j)))))"
      by blast+
    have 1: "long_dist r ?res \<le> long_dist r b" using le b'b by linarith
    have 2: "\<forall>c' \<in> set (table_entries (c # cs)). long_dist r ?res \<le> long_dist r (ucast (rate c'))"
      using all le b'x by (auto simp: te)
    have 3: "?res = b \<or> (\<exists>i < length (table_entries (c # cs)).
                 ?res = ucast (rate (table_entries (c # cs) ! i))
                 \<and> long_dist r ?res < long_dist r b
                 \<and> (\<forall>j < i. long_dist r ?res < long_dist r (ucast (rate (table_entries (c # cs) ! j)))))"
      using which
    proof
      assume eq: "?res = ?b'"
      show ?thesis
      proof (cases "long_dist r ?x < long_dist r b")
        case True
        with eq have "?res = ?x" by simp
        with True show ?thesis by (intro disjI2 exI [of _ 0]) (simp add: te)
      next
        case False
        with eq show ?thesis by simp
      qed
    next
      assume "\<exists>i < length (table_entries cs).
                 ?res = ucast (rate (table_entries cs ! i))
                 \<and> long_dist r ?res < long_dist r ?b'
                 \<and> (\<forall>j < i. long_dist r ?res < long_dist r (ucast (rate (table_entries cs ! j))))"
      then obtain i where i: "i < length (table_entries cs)"
        "?res = ucast (rate (table_entries cs ! i))"
        "long_dist r ?res < long_dist r ?b'"
        "\<forall>j < i. long_dist r ?res < long_dist r (ucast (rate (table_entries cs ! j)))"
        by blast
      have lt_b: "long_dist r ?res < long_dist r b" using i(3) b'b by linarith
      have lt_x: "long_dist r ?res < long_dist r ?x" using i(3) b'x by linarith
      have "\<forall>j < Suc i. long_dist r ?res < long_dist r (ucast (rate ((c # table_entries cs) ! j)))"
      proof (intro allI impI)
        fix j assume "j < Suc i"
        then show "long_dist r ?res < long_dist r (ucast (rate ((c # table_entries cs) ! j)))"
          using lt_x i(4) by (cases j) simp_all
      qed
      with i(1,2) lt_b show ?thesis
        by (intro disjI2 exI [of _ "Suc i"]) (simp add: te)
    qed
    from 1 2 3 show ?thesis by (simp only: step)
  qed
qed


lemma long_dist_ucast:
  fixes r :: "'l::len word"
  assumes "uint (rate c) < 2 ^ (LENGTH('l) - Suc 0)"
  shows "long_dist r (ucast (rate c)) = rate_dist r c"
  by (simp only: long_dist_def rate_dist_def uint_ucast_rate [OF assms])

lemma round_rate_minimal:
  fixes r :: "'l::len word"
  assumes ne: "pll_cfg (pll_devdata clk) = c0 # cs" "rate c0 \<noteq> 0"
    and r: "uint r < 2 ^ (LENGTH('l) - Suc 0)"
    and es: "\<forall>c \<in> set (table_entries (pll_cfg (pll_devdata clk))). uint (rate c) < 2 ^ (LENGTH('l) - Suc 0)"
  shows "\<exists>c \<in> set (table_entries (pll_cfg (pll_devdata clk))).
           hsdk_pll_round_rate clk r = ucast (rate c)
           \<and> (\<forall>c' \<in> set (table_entries (pll_cfg (pll_devdata clk))). rate_dist r c \<le> rate_dist r c')"
proof -
  let ?es = "table_entries (pll_cfg (pll_devdata clk))"
  let ?res = "hsdk_pll_round_rate clk r"
  have te: "?es = c0 # table_entries cs" using ne by (simp add: table_entries_def)
  have c0b: "uint (rate c0) < 2 ^ (LENGTH('l) - Suc 0)" using es by (simp add: te)
  have rest: "\<forall>c \<in> set (table_entries cs). uint (rate c) < 2 ^ (LENGTH('l) - Suc 0)"
    using es by (simp add: te)
  have b: "uint (ucast (rate c0) :: 'l word) < 2 ^ (LENGTH('l) - Suc 0)"
    using c0b by (simp only: uint_ucast_rate [OF c0b])
  have rr: "?res = round_rate_loop cs r (ucast (rate c0))" using ne by (simp add: hsdk_pll_round_rate_def)
  from round_rate_in_table [OF ne, of r] obtain c where c: "c \<in> set ?es" "?res = ucast (rate c)"
    by blast
  from es c(1) have cb: "uint (rate c) < 2 ^ (LENGTH('l) - Suc 0)" by blast
  have resD: "long_dist r ?res = rate_dist r c"
    by (simp only: c(2) long_dist_ucast [OF cb])
  from round_rate_loop_nearest [OF r b rest]
  have le0: "long_dist r ?res \<le> long_dist r (ucast (rate c0))"
    and all: "\<forall>c \<in> set (table_entries cs). long_dist r ?res \<le> long_dist r (ucast (rate c))"
    unfolding rr by blast+
  have "\<forall>c' \<in> set ?es. rate_dist r c \<le> rate_dist r c'"
  proof
    fix c' assume c': "c' \<in> set ?es"
    with es have c'b: "uint (rate c') < 2 ^ (LENGTH('l) - Suc 0)" by blast
    from c' le0 all have "long_dist r ?res \<le> long_dist r (ucast (rate c'))" by (auto simp: te)
    then show "rate_dist r c \<le> rate_dist r c'"
      by (simp only: resD long_dist_ucast [OF c'b])
  qed
  with c show ?thesis by blast
qed

subsection \<open>What a rate change does to the hardware\<close>

lemma emitted_append: "io_trace s' = io_trace s @ evs \<Longrightarrow> emitted s s' = evs"
  by (simp add: emitted_def)

lemma call_update_rate_ret:
  "fst (call_update_rate clk r c s) =
     (if status0 s AND CGU_PLL_STATUS_LOCK = 0 then - ETIMEDOUT
      else if status1 s AND CGU_PLL_STATUS_ERR \<noteq> 0 then - EINVAL else 0)"
  by (cases "update_rate (pll_devdata clk)")
     (simp_all only: call_update_rate_def update_rate_fn.case comm_update_rate_ret core_update_rate_ret)

lemma call_update_rate_regs:
  "pll_regs (snd (call_update_rate clk r c s)) = (pll_regs s)(CGU_PLL_CTRL := set_cfg_val c)"
  by (cases "update_rate (pll_devdata clk)")
     (simp_all only: call_update_rate_def update_rate_fn.case comm_update_rate_regs core_update_rate_regs)

lemma comm_update_rate_emitted:
  "emitted s (snd (hsdk_pll_comm_update_rate clk r c s)) =
     [Pll_write CGU_PLL_CTRL (set_cfg_val c), Udelay HSDK_PLL_MAX_LOCK_TIME,
      Pll_read CGU_PLL_STATUS (status0 s)] @
     (if status0 s AND CGU_PLL_STATUS_LOCK = 0 then []
      else [Pll_read CGU_PLL_STATUS (status1 s)])"
  by (rule emitted_append) (rule comm_update_rate_trace)

lemma core_update_rate_emitted:
  "emitted s (snd (hsdk_pll_core_update_rate clk r c s)) =
     (if r > CORE_IF_CLK_THRESHOLD_HZ
      then [Spc_write CREG_CORE_IF_DIV CREG_CORE_IF_CLK_DIV_2] else []) @
     [Pll_write CGU_PLL_CTRL (set_cfg_val c), Udelay HSDK_PLL_MAX_LOCK_TIME,
      Pll_read CGU_PLL_STATUS (status0 s)] @
     (if status0 s AND CGU_PLL_STATUS_LOCK = 0 then []
      else Pll_read CGU_PLL_STATUS (status1 s) #
           (if status1 s AND CGU_PLL_STATUS_ERR \<noteq> 0 then []
            else if r \<le> CORE_IF_CLK_THRESHOLD_HZ
                 then [Spc_write CREG_CORE_IF_DIV CREG_CORE_IF_CLK_DIV_1] else []))"
  by (rule emitted_append) (rule core_update_rate_trace)

lemma call_update_rate_no_pr_err:
  "Pr_err \<notin> set (emitted s (snd (call_update_rate clk r c s)))"
  by (cases "update_rate (pll_devdata clk)")
     (simp_all add: call_update_rate_def comm_update_rate_emitted core_update_rate_emitted)

lemma call_update_rate_timeout_no_div1:
  "status0 s AND CGU_PLL_STATUS_LOCK = 0 \<Longrightarrow>
   Spc_write CREG_CORE_IF_DIV CREG_CORE_IF_CLK_DIV_1
     \<notin> set (emitted s (snd (call_update_rate clk r c s)))"
  by (cases "update_rate (pll_devdata clk)")
     (simp_all add: call_update_rate_def comm_update_rate_emitted core_update_rate_emitted
        CREG_CORE_IF_CLK_DIV_1_def CREG_CORE_IF_CLK_DIV_2_def)

lemma call_update_rate_err_no_div1:
  "status1 s AND CGU_PLL_STATUS_ERR \<noteq> 0 \<Longrightarrow>
   Spc_write CREG_CORE_IF_DIV CREG_CORE_IF_CLK_DIV_1
     \<notin> set (emitted s (snd (call_update_rate clk r c s)))"
  by (cases "update_rate (pll_devdata clk)")
     (simp_all add: call_update_rate_def comm_update_rate_emitted core_update_rate_emitted
        CREG_CORE_IF_CLK_DIV_1_def CREG_CORE_IF_CLK_DIV_2_def)

lemma call_update_rate_timeout_trace:
  assumes "status0 s AND CGU_PLL_STATUS_LOCK = 0"
  shows "\<exists>pre. emitted s (snd (call_update_rate clk r c s)) =
           pre @ [Pll_write CGU_PLL_CTRL (set_cfg_val c), Udelay HSDK_PLL_MAX_LOCK_TIME,
                  Pll_read CGU_PLL_STATUS (status0 s)]
         \<and> (pre = [] \<or> pre = [Spc_write CREG_CORE_IF_DIV CREG_CORE_IF_CLK_DIV_2])"
proof (cases "update_rate (pll_devdata clk)")
  case Core_update_rate
  show ?thesis
  proof (cases "r > CORE_IF_CLK_THRESHOLD_HZ")
    case True
    with Core_update_rate assms show ?thesis
      by (intro exI [of _ "[Spc_write CREG_CORE_IF_DIV CREG_CORE_IF_CLK_DIV_2]"])
         (simp add: call_update_rate_def core_update_rate_emitted)
  next
    case False
    with Core_update_rate assms show ?thesis
      by (intro exI [of _ "[]"]) (simp add: call_update_rate_def core_update_rate_emitted)
  qed
next
  case Comm_update_rate
  with assms show ?thesis
    by (intro exI [of _ "[]"]) (simp add: call_update_rate_def comm_update_rate_emitted)
qed

lemma asdt_nonempty: "\<exists>c0 cs. asdt_pll_cfg = c0 # cs \<and> rate c0 \<noteq> 0"
  by (simp add: asdt_pll_cfg_def cfg_def)

lemma hdmi_nonempty: "\<exists>c0 cs. hdmi_pll_cfg = c0 # cs \<and> rate c0 \<noteq> 0"
  by (simp add: hdmi_pll_cfg_def cfg_def)

lemma variant_nonempty:
  assumes "pll_devdata clk \<in> {core_pll_devdata, sdt_pll_devdata, hdmi_pll_devdata}"
  shows "\<exists>c0 cs. pll_cfg (pll_devdata clk) = c0 # cs \<and> rate c0 \<noteq> 0"
proof -
  from assms have "pll_cfg (pll_devdata clk) = asdt_pll_cfg \<or> pll_cfg (pll_devdata clk) = hdmi_pll_cfg"
    by (auto simp: core_pll_devdata_def sdt_pll_devdata_def hdmi_pll_devdata_def)
  then show ?thesis
    using asdt_nonempty hdmi_nonempty by (elim disjE) simp_all
qed

subsection \<open>Evaluation on the shipped tables\<close>

lemma table_facts:
  "pll_cfg (pll_devdata sdt_clk) = hd asdt_pll_cfg # tl asdt_pll_cfg"
  "pll_cfg (pll_devdata core_clk) = hd asdt_pll_cfg # tl asdt_pll_cfg"
  "rate (hd asdt_pll_cfg) \<noteq> 0"
  by (simp_all add: sdt_clk_def core_clk_def sdt_pll_devdata_def core_pll_devdata_def asdt_pll_cfg_def cfg_def)

lemmas eval_defs = hsdk_pll_set_rate_def hsdk_pll_round_rate_def call_update_rate_def
  hsdk_pll_comm_update_rate_def hsdk_pll_core_update_rate_def io_defs io_reset_def
  sdt_clk_def core_clk_def hdmi_clk_def sdt_pll_devdata_def core_pll_devdata_def hdmi_pll_devdata_def
  asdt_pll_cfg_def hdmi_pll_cfg_def cfg_def cfg_end_def abs_long_def word_sless_alt
  CGU_PLL_STATUS_LOCK_def CGU_PLL_STATUS_ERR_def BIT_def emitted_def
  CORE_IF_CLK_THRESHOLD_HZ_def ETIMEDOUT_def EINVAL_def Let_def

lemma asdt_entries:
  "table_entries asdt_pll_cfg = butlast asdt_pll_cfg"
  by (simp add: table_entries_def asdt_pll_cfg_def cfg_def cfg_end_def)

lemma asdt_entries_fit_long:
  "\<forall>c \<in> set (table_entries asdt_pll_cfg). uint (rate c) < 2 ^ (LENGTH(32) - 1)"
  by (simp add: asdt_entries) (simp add: asdt_pll_cfg_def cfg_def)

lemma core_low_request:
  fixes r :: "'l::len word"
  assumes t: "pll_cfg (pll_devdata clk) = asdt_pll_cfg"
    and L: "32 \<le> LENGTH('l)"
    and r: "r \<le> CORE_IF_CLK_THRESHOLD_HZ"
  shows "hsdk_pll_round_rate clk r \<le> CORE_IF_CLK_THRESHOLD_HZ"
proof -
  from L have "31 \<le> LENGTH('l) - Suc 0" by simp
  then have "(2::int) ^ 31 \<le> 2 ^ (LENGTH('l) - Suc 0)" by (intro power_increasing) simp_all
  then have half: "(2147483648::int) \<le> 2 ^ (LENGTH('l) - Suc 0)" by simp
  have "(2::int) ^ 32 \<le> 2 ^ LENGTH('l)" using L by (intro power_increasing) simp_all
  then have full: "(4294967296::int) \<le> 2 ^ LENGTH('l)" by simp
  have thr: "uint (CORE_IF_CLK_THRESHOLD_HZ :: 'l word) = 500000000"
    using full by (simp add: CORE_IF_CLK_THRESHOLD_HZ_def take_bit_int_eq_self)
  from r have ur: "uint r \<le> 500000000" by (simp add: word_le_def thr)
  with half have rb: "uint r < 2 ^ (LENGTH('l) - Suc 0)" by linarith
  have "\<forall>c \<in> set (table_entries asdt_pll_cfg). uint (rate c) < 2147483648"
    using asdt_entries_fit_long by simp
  with half have es: "\<forall>c \<in> set (table_entries (pll_cfg (pll_devdata clk))).
      uint (rate c) < 2 ^ (LENGTH('l) - Suc 0)"
    unfolding t by (meson less_le_trans)
  have ne: "pll_cfg (pll_devdata clk) = hd asdt_pll_cfg # tl asdt_pll_cfg" "rate (hd asdt_pll_cfg) \<noteq> 0"
    by (simp_all add: t asdt_pll_cfg_def cfg_def)
  from round_rate_minimal [OF ne rb es] obtain c
    where c: "c \<in> set (table_entries asdt_pll_cfg)" "hsdk_pll_round_rate clk r = ucast (rate c)"
      and m: "\<forall>c' \<in> set (table_entries asdt_pll_cfg). rate_dist r c \<le> rate_dist r c'"
    unfolding t by blast
  have "cfg 500000000 0 14 1 0 \<in> set (table_entries asdt_pll_cfg)"
    by (simp add: asdt_entries) (simp add: asdt_pll_cfg_def)
  with m have "rate_dist r c \<le> rate_dist r (cfg 500000000 0 14 1 0)" by blast
  then have "\<bar>uint r - uint (rate c)\<bar> \<le> \<bar>uint r - 500000000\<bar>"
    by (simp add: rate_dist_def cfg_def)
  with ur have le: "uint (rate c) \<le> 500000000" by linarith
  from c(1) es have cb: "uint (rate c) < 2 ^ (LENGTH('l) - Suc 0)" unfolding t by blast
  have "uint (hsdk_pll_round_rate clk r) = uint (rate c)"
    by (simp only: c(2) uint_ucast_rate [OF cb])
  with le show ?thesis by (simp add: word_le_def thr)
qed

lemmas codec_defs = set_cfg_val_def hsdk_pll_get_rate_def get_rate_idiv_def get_rate_fbdiv_def
  get_rate_odiv_def do_div_def mask_values CGU_PLL_CTRL_PD_def CGU_PLL_CTRL_BYPASS_def
  CGU_PLL_CTRL_IDIV_SHIFT_def CGU_PLL_CTRL_FBDIV_SHIFT_def CGU_PLL_CTRL_ODIV_SHIFT_def
  CGU_PLL_CTRL_BAND_SHIFT_def PARENT_RATE_def BIT_def

lemma get_rate_after_set_cfg:
  "fst (hsdk_pll_get_rate clk (hsdk_pll_set_cfg clk c s))
     = fst (hsdk_pll_get_rate clk (s\<lparr>pll_regs := (\<lambda>_. set_cfg_val c)\<rparr>))"
  by (simp add: hsdk_pll_get_rate_def io_defs Let_def)

lemma get_rate_of_ctrl:
  "pll_regs s CGU_PLL_CTRL = v \<Longrightarrow>
   fst (hsdk_pll_get_rate clk s) = fst (hsdk_pll_get_rate clk (s\<lparr>pll_regs := (\<lambda>_. v)\<rparr>))"
  by (simp add: hsdk_pll_get_rate_def io_defs Let_def)

lemma long_width:
  assumes "32 \<le> LENGTH('l::len)"
  shows "(2147483648::int) \<le> 2 ^ (LENGTH('l) - Suc 0)" and "(4294967296::int) \<le> 2 ^ LENGTH('l)"
proof -
  from assms have "31 \<le> LENGTH('l) - Suc 0" by simp
  then have "(2::int) ^ 31 \<le> 2 ^ (LENGTH('l) - Suc 0)" by (intro power_increasing) simp_all
  then show "(2147483648::int) \<le> 2 ^ (LENGTH('l) - Suc 0)" by simp
  have "(2::int) ^ 32 \<le> 2 ^ LENGTH('l)" using assms by (intro power_increasing) simp_all
  then show "(4294967296::int) \<le> 2 ^ LENGTH('l)" by simp
qed

lemma asdt_entries_fit:
  assumes "32 \<le> LENGTH('l::len)"
  shows "\<forall>c \<in> set (table_entries asdt_pll_cfg). uint (rate c) < 2 ^ (LENGTH('l) - Suc 0)"
proof
  fix c assume "c \<in> set (table_entries asdt_pll_cfg)"
  with asdt_entries_fit_long have "uint (rate c) < 2147483648" by simp
  with long_width(1) [OF assms] show "uint (rate c) < 2 ^ (LENGTH('l) - Suc 0)" by linarith
qed

lemma asdt_entry_233:
  assumes "c \<in> set (table_entries asdt_pll_cfg)"
    and "233000000 \<le> uint (rate c)" and "uint (rate c) \<le> 267000000"
  shows "c = cfg 233000000 1 27 2 0"
  using assms by (simp add: asdt_entries) (auto simp: asdt_pll_cfg_def cfg_def)

lemma round_rate_250MHz:
  assumes t: "pll_cfg (pll_devdata clk) = asdt_pll_cfg" and L: "32 \<le> LENGTH('l::len)"
  shows "hsdk_pll_round_rate clk (250000000 :: 'l word) = 233000000"
proof -
  note w = long_width [OF L]
  have ur: "uint (250000000 :: 'l word) = 250000000"
    using w(2) by (simp add: take_bit_int_eq_self)
  with w(1) have rb: "uint (250000000 :: 'l word) < 2 ^ (LENGTH('l) - Suc 0)" by linarith
  have es: "\<forall>c \<in> set (table_entries (pll_cfg (pll_devdata clk))).
      uint (rate c) < 2 ^ (LENGTH('l) - Suc 0)"
    unfolding t by (rule asdt_entries_fit [OF L])
  have ne: "pll_cfg (pll_devdata clk) = hd asdt_pll_cfg # tl asdt_pll_cfg" "rate (hd asdt_pll_cfg) \<noteq> 0"
    by (simp_all add: t asdt_pll_cfg_def cfg_def)
  from round_rate_minimal [OF ne rb es] obtain c
    where c: "c \<in> set (table_entries asdt_pll_cfg)"
      "hsdk_pll_round_rate clk (250000000 :: 'l word) = ucast (rate c)"
      and m: "\<forall>c' \<in> set (table_entries asdt_pll_cfg).
                rate_dist (250000000 :: 'l word) c \<le> rate_dist (250000000 :: 'l word) c'"
    unfolding t by blast
  have "cfg 233000000 1 27 2 0 \<in> set (table_entries asdt_pll_cfg)"
    by (simp add: asdt_entries) (simp add: asdt_pll_cfg_def)
  with m have "rate_dist (250000000 :: 'l word) c \<le> rate_dist (250000000 :: 'l word) (cfg 233000000 1 27 2 0)"
    by blast
  then have "\<bar>uint (250000000 :: 'l word) - uint (rate c)\<bar>
      \<le> \<bar>uint (250000000 :: 'l word) - uint (rate (cfg 233000000 1 27 2 0))\<bar>"
    by (simp only: rate_dist_def)
  then have "\<bar>250000000 - uint (rate c)\<bar> \<le> (17000000::int)"
    unfolding ur by (simp add: cfg_def)
  then have "233000000 \<le> uint (rate c)" "uint (rate c) \<le> 267000000" by linarith+
  from asdt_entry_233 [OF c(1) this] have "c = cfg 233000000 1 27 2 0" .
  with c(2) show ?thesis by (simp add: cfg_def)
qed

lemma ucast_rate_233:
  assumes L: "32 \<le> LENGTH('l::len)" and c: "c \<in> set (table_entries asdt_pll_cfg)"
    and eq: "(ucast (rate c) :: 'l word) = 233000000"
  shows "c = cfg 233000000 1 27 2 0"
proof -
  note w = long_width [OF L]
  from asdt_entries_fit [OF L] c have cb: "uint (rate c) < 2 ^ (LENGTH('l) - Suc 0)" by blast
  have "uint (rate c) = uint (ucast (rate c) :: 'l word)" by (simp only: uint_ucast_rate [OF cb])
  also have "\<dots> = uint (233000000 :: 'l word)" by (simp only: eq)
  also have "\<dots> = 233000000" using w(2) by (simp add: take_bit_int_eq_self)
  finally have "uint (rate c) = 233000000" .
  then show ?thesis by (intro asdt_entry_233 [OF c]) simp_all
qed

lemma decode_233_long:
  "fst (hsdk_pll_get_rate clk (s\<lparr>pll_regs := (\<lambda>_. set_cfg_val (cfg 233000000 1 27 2 0))\<rparr>))
     = Some (233333331 :: 'l::len word)"
  by (simp add: codec_defs io_defs cfg_def Let_def)

lemma decode_asdt:
  "map (\<lambda>c. fst (hsdk_pll_get_rate clk (s\<lparr>pll_regs := (\<lambda>_. set_cfg_val c)\<rparr>)) :: 'l::len word option)
       (table_entries asdt_pll_cfg)
   = [Some 99999999, Some 133333332, Some 199999998, Some 233333331, Some 299999997,
      Some 333333330, Some 399999996, Some 499999995, Some 599999994, Some 699999993,
      Some 799999992, Some 899999991, Some 999999990, Some 1099999989, Some 1199999988,
      Some 1299999987, Some 1399999986, Some 1499999985, Some 1599999984]"
  by (simp add: table_entries_def asdt_pll_cfg_def cfg_def cfg_end_def codec_defs io_defs Let_def)

text \<open>
  The HDMI table with the reference frequency of the driver: its entries decode to
  366,666,663, 666,666,660 and 733,333,326 Hz. The same dividers give the rates of the
  table, 297, 540 and 594 MHz, for a reference of 27 MHz, which \<open>hsdk_pll_get_rate\<close>
  does not use.
\<close>

lemma hdmi_decode:
  "map (\<lambda>c. fst (hsdk_pll_get_rate clk (hsdk_pll_set_cfg clk c s)) :: 'l::len word option)
       (table_entries hdmi_pll_cfg)
     = [Some 366666663, Some 666666660, Some 733333326]
   \<and> map (\<lambda>c. (27000000 :: u64) * ucast (get_rate_fbdiv (set_cfg_val c))
                  div ucast (get_rate_idiv (set_cfg_val c) * get_rate_odiv (set_cfg_val c)))
         (table_entries hdmi_pll_cfg)
     = [297000000, 540000000, 594000000]"
  unfolding get_rate_after_set_cfg
  by (simp add: table_entries_def hdmi_pll_cfg_def cfg_def cfg_end_def codec_defs io_defs Let_def)

section \<open>The claims\<close>

text \<open>
  C1, as amended. For every instance with a non-empty rate table and every requested
  frequency, when the applied configuration locks without error, \<open>hsdk_pll_set_rate\<close>
  returns 0, the status of the update, and the control register holds the control
  word of a table entry whose rate is the matched one, the result of
  \<open>hsdk_pll_round_rate\<close>.
\<close>

theorem set_rate_success:
  assumes "pll_cfg (pll_devdata clk) = c0 # cs" and "rate c0 \<noteq> 0"
    and "status0 s AND CGU_PLL_STATUS_LOCK \<noteq> 0" and "status1 s AND CGU_PLL_STATUS_ERR = 0"
  shows "fst (hsdk_pll_set_rate clk r s) = (0 :: 'l::len word)
         \<and> (\<exists>c \<in> set (table_entries (pll_cfg (pll_devdata clk))).
               ucast (rate c) = hsdk_pll_round_rate clk r
               \<and> pll_regs (snd (hsdk_pll_set_rate clk r s)) CGU_PLL_CTRL = set_cfg_val c)"
proof -
  from set_rate_applies [OF assms(1,2), of r s]
  obtain c where c: "c \<in> set (table_entries (pll_cfg (pll_devdata clk)))"
      "ucast (rate c) = hsdk_pll_round_rate clk r"
      "hsdk_pll_set_rate clk r s =
         (case call_update_rate clk (hsdk_pll_round_rate clk r) c s of
            (ret, s') \<Rightarrow> (scast ret, s'))"
    by blast
  let ?u = "call_update_rate clk (hsdk_pll_round_rate clk r) c s"
  from c(3) have f: "fst (hsdk_pll_set_rate clk r s) = scast (fst ?u)"
    and t: "snd (hsdk_pll_set_rate clk r s) = snd ?u"
    by (simp_all add: split_beta)
  have "fst (hsdk_pll_set_rate clk r s) = 0"
    unfolding f call_update_rate_ret using assms(3,4) by simp
  moreover have "pll_regs (snd (hsdk_pll_set_rate clk r s)) CGU_PLL_CTRL = set_cfg_val c"
    unfolding t call_update_rate_regs by simp
  ultimately show ?thesis using c(1,2) by blast
qed

text \<open>The amended C1 for a request of 1 GHz to the generic-system PLL, which locks.\<close>

theorem set_rate_success_witness:
  "pll_cfg (pll_devdata sdt_clk) = hd asdt_pll_cfg # tl asdt_pll_cfg
   \<and> rate (hd asdt_pll_cfg) \<noteq> 0
   \<and> status0 (io_reset 1 1) AND CGU_PLL_STATUS_LOCK \<noteq> 0
   \<and> status1 (io_reset 1 1) AND CGU_PLL_STATUS_ERR = 0
   \<and> fst (hsdk_pll_set_rate sdt_clk (1000000000 :: 32 word) (io_reset 1 1)) = 0
   \<and> (\<exists>c \<in> set (table_entries (pll_cfg (pll_devdata sdt_clk))).
         ucast (rate c) = hsdk_pll_round_rate sdt_clk (1000000000 :: 32 word)
         \<and> pll_regs (snd (hsdk_pll_set_rate sdt_clk (1000000000 :: 32 word) (io_reset 1 1))) CGU_PLL_CTRL
             = set_cfg_val c)"
proof -
  have s: "status0 (io_reset 1 1) AND CGU_PLL_STATUS_LOCK \<noteq> 0"
    "status1 (io_reset 1 1) AND CGU_PLL_STATUS_ERR = 0"
    by (simp_all add: status0_def status1_def io_reset_def CGU_PLL_STATUS_LOCK_def CGU_PLL_STATUS_ERR_def BIT_def)
  from set_rate_success [OF table_facts(1) table_facts(3) s, of "1000000000 :: 32 word"]
  show ?thesis using table_facts s by blast
qed

text \<open>
  C1 as stated fails: a request of 250 MHz to the generic-system PLL matches the
  233 MHz entry and locks without error, and \<open>hsdk_pll_set_rate\<close> returns 0, not
  233,000,000.
\<close>

theorem set_rate_returns_rate_counterexample:
  "status0 (io_reset 1 1) AND CGU_PLL_STATUS_LOCK \<noteq> 0
   \<and> status1 (io_reset 1 1) AND CGU_PLL_STATUS_ERR = 0
   \<and> hsdk_pll_round_rate sdt_clk (250000000 :: 32 word) = 233000000
   \<and> fst (hsdk_pll_set_rate sdt_clk (250000000 :: 32 word) (io_reset 1 1)) = 0
   \<and> fst (hsdk_pll_set_rate sdt_clk (250000000 :: 32 word) (io_reset 1 1)) \<noteq> 233000000"
  by (simp add: eval_defs)

text \<open>
  C2, as amended. For the core-clock variant and every request: when the matched rate
  (the table rate \<open>hsdk_pll_round_rate\<close> picks for the request, which is what
  \<open>hsdk_pll_set_rate\<close> passes on) is above 500,000,000 Hz, the first access is the
  divide-by-2 write to the auxiliary register and the write of the main control
  register follows it, with no other auxiliary write; when the matched rate is at or
  below 500,000,000 Hz, the only auxiliary write is divide-by-1, as the last access,
  after a status read that shows lock and one that shows no error. The generic-system
  and HDMI variants never write the auxiliary register. Every request at or below
  500,000,000 Hz has a matched rate at or below it (for an \<open>unsigned long\<close> of at
  least 32 bits), so that half of the claim stands for the requested rate as well.
\<close>

theorem set_rate_aux_divider:
  fixes r :: "'l::len word"
  assumes s': "s' = snd (hsdk_pll_set_rate clk r s)"
  shows "(pll_devdata clk = core_pll_devdata \<and> CORE_IF_CLK_THRESHOLD_HZ < hsdk_pll_round_rate clk r \<longrightarrow>
            (\<exists>c rest. emitted s s' =
                 Spc_write CREG_CORE_IF_DIV CREG_CORE_IF_CLK_DIV_2
                   # Pll_write CGU_PLL_CTRL (set_cfg_val c) # rest
               \<and> (\<forall>reg val. Spc_write reg val \<notin> set rest)))
         \<and> (pll_devdata clk = core_pll_devdata \<and> hsdk_pll_round_rate clk r \<le> CORE_IF_CLK_THRESHOLD_HZ \<longrightarrow>
            (\<exists>c. emitted s s' =
                 [Pll_write CGU_PLL_CTRL (set_cfg_val c), Udelay HSDK_PLL_MAX_LOCK_TIME,
                  Pll_read CGU_PLL_STATUS (status0 s)] @
                 (if status0 s AND CGU_PLL_STATUS_LOCK = 0 then []
                  else Pll_read CGU_PLL_STATUS (status1 s) #
                       (if status1 s AND CGU_PLL_STATUS_ERR \<noteq> 0 then []
                        else [Spc_write CREG_CORE_IF_DIV CREG_CORE_IF_CLK_DIV_1]))))
         \<and> (pll_devdata clk \<in> {sdt_pll_devdata, hdmi_pll_devdata} \<longrightarrow>
            (\<forall>reg val. Spc_write reg val \<notin> set (emitted s s')))
         \<and> (pll_devdata clk = core_pll_devdata \<and> 32 \<le> LENGTH('l) \<and> r \<le> CORE_IF_CLK_THRESHOLD_HZ \<longrightarrow>
            hsdk_pll_round_rate clk r \<le> CORE_IF_CLK_THRESHOLD_HZ)"
proof (intro conjI impI)
  assume a: "pll_devdata clk = core_pll_devdata \<and> CORE_IF_CLK_THRESHOLD_HZ < hsdk_pll_round_rate clk r"
  then have "pll_devdata clk \<in> {core_pll_devdata, sdt_pll_devdata, hdmi_pll_devdata}" by simp
  from variant_nonempty [OF this] obtain c0 cs
    where ne: "pll_cfg (pll_devdata clk) = c0 # cs" "rate c0 \<noteq> 0" by blast
  from set_rate_applies [OF ne, of r s] obtain c where c: "hsdk_pll_set_rate clk r s =
         (case call_update_rate clk (hsdk_pll_round_rate clk r) c s of (ret, s') \<Rightarrow> (scast ret, s'))"
    by blast
  have "s' = snd (hsdk_pll_core_update_rate clk (hsdk_pll_round_rate clk r) c s)"
    using a by (simp add: s' c split_beta call_update_rate_def core_pll_devdata_def)
  then have "emitted s s' =
       Spc_write CREG_CORE_IF_DIV CREG_CORE_IF_CLK_DIV_2 # Pll_write CGU_PLL_CTRL (set_cfg_val c) #
         ([Udelay HSDK_PLL_MAX_LOCK_TIME, Pll_read CGU_PLL_STATUS (status0 s)] @
          (if status0 s AND CGU_PLL_STATUS_LOCK = 0 then []
           else [Pll_read CGU_PLL_STATUS (status1 s)]))"
    using a by (simp add: core_update_rate_emitted not_le [symmetric])
  then show "\<exists>c rest. emitted s s' =
                 Spc_write CREG_CORE_IF_DIV CREG_CORE_IF_CLK_DIV_2
                   # Pll_write CGU_PLL_CTRL (set_cfg_val c) # rest
               \<and> (\<forall>reg val. Spc_write reg val \<notin> set rest)"
    by (intro exI conjI) (assumption, simp)
next
  assume a: "pll_devdata clk = core_pll_devdata \<and> hsdk_pll_round_rate clk r \<le> CORE_IF_CLK_THRESHOLD_HZ"
  then have "pll_devdata clk \<in> {core_pll_devdata, sdt_pll_devdata, hdmi_pll_devdata}" by simp
  from variant_nonempty [OF this] obtain c0 cs
    where ne: "pll_cfg (pll_devdata clk) = c0 # cs" "rate c0 \<noteq> 0" by blast
  from set_rate_applies [OF ne, of r s] obtain c where c: "hsdk_pll_set_rate clk r s =
         (case call_update_rate clk (hsdk_pll_round_rate clk r) c s of (ret, s') \<Rightarrow> (scast ret, s'))"
    by blast
  have "s' = snd (hsdk_pll_core_update_rate clk (hsdk_pll_round_rate clk r) c s)"
    using a by (simp add: s' c split_beta call_update_rate_def core_pll_devdata_def)
  then have "emitted s s' =
                 [Pll_write CGU_PLL_CTRL (set_cfg_val c), Udelay HSDK_PLL_MAX_LOCK_TIME,
                  Pll_read CGU_PLL_STATUS (status0 s)] @
                 (if status0 s AND CGU_PLL_STATUS_LOCK = 0 then []
                  else Pll_read CGU_PLL_STATUS (status1 s) #
                       (if status1 s AND CGU_PLL_STATUS_ERR \<noteq> 0 then []
                        else [Spc_write CREG_CORE_IF_DIV CREG_CORE_IF_CLK_DIV_1]))"
    using a by (simp add: core_update_rate_emitted not_less [symmetric])
  then show "\<exists>c. emitted s s' =
                 [Pll_write CGU_PLL_CTRL (set_cfg_val c), Udelay HSDK_PLL_MAX_LOCK_TIME,
                  Pll_read CGU_PLL_STATUS (status0 s)] @
                 (if status0 s AND CGU_PLL_STATUS_LOCK = 0 then []
                  else Pll_read CGU_PLL_STATUS (status1 s) #
                       (if status1 s AND CGU_PLL_STATUS_ERR \<noteq> 0 then []
                        else [Spc_write CREG_CORE_IF_DIV CREG_CORE_IF_CLK_DIV_1]))"
    by (rule exI)
next
  assume a: "pll_devdata clk \<in> {sdt_pll_devdata, hdmi_pll_devdata}"
  then have "pll_devdata clk \<in> {core_pll_devdata, sdt_pll_devdata, hdmi_pll_devdata}" by auto
  from variant_nonempty [OF this] obtain c0 cs
    where ne: "pll_cfg (pll_devdata clk) = c0 # cs" "rate c0 \<noteq> 0" by blast
  from set_rate_applies [OF ne, of r s] obtain c where c: "hsdk_pll_set_rate clk r s =
         (case call_update_rate clk (hsdk_pll_round_rate clk r) c s of (ret, s') \<Rightarrow> (scast ret, s'))"
    by blast
  from a have "update_rate (pll_devdata clk) = Comm_update_rate"
    by (auto simp: sdt_pll_devdata_def hdmi_pll_devdata_def)
  then have "s' = snd (hsdk_pll_comm_update_rate clk (hsdk_pll_round_rate clk r) c s)"
    by (simp add: s' c split_beta call_update_rate_def)
  then show "\<forall>reg val. Spc_write reg val \<notin> set (emitted s s')"
    by (simp add: comm_update_rate_emitted)
next
  assume a: "pll_devdata clk = core_pll_devdata \<and> 32 \<le> LENGTH('l) \<and> r \<le> CORE_IF_CLK_THRESHOLD_HZ"
  then have "pll_cfg (pll_devdata clk) = asdt_pll_cfg" by (simp add: core_pll_devdata_def)
  with a show "hsdk_pll_round_rate clk r \<le> CORE_IF_CLK_THRESHOLD_HZ"
    by (intro core_low_request) simp_all
qed

text \<open>
  The amended C2 for the core PLL at 600 MHz and at 400 MHz, and for the HDMI PLL, each
  with a status register that shows lock and no error.
\<close>

theorem set_rate_aux_divider_witness:
  "(pll_devdata core_clk = core_pll_devdata \<and>
      CORE_IF_CLK_THRESHOLD_HZ < hsdk_pll_round_rate core_clk (600000000 :: 32 word))
   \<and> (\<exists>c rest. emitted (io_reset 1 1) (snd (hsdk_pll_set_rate core_clk (600000000 :: 32 word) (io_reset 1 1))) =
           Spc_write CREG_CORE_IF_DIV CREG_CORE_IF_CLK_DIV_2 # Pll_write CGU_PLL_CTRL (set_cfg_val c) # rest
         \<and> (\<forall>reg val. Spc_write reg val \<notin> set rest))
   \<and> (pll_devdata core_clk = core_pll_devdata \<and>
      hsdk_pll_round_rate core_clk (400000000 :: 32 word) \<le> CORE_IF_CLK_THRESHOLD_HZ)
   \<and> (\<exists>c. emitted (io_reset 1 1) (snd (hsdk_pll_set_rate core_clk (400000000 :: 32 word) (io_reset 1 1))) =
           [Pll_write CGU_PLL_CTRL (set_cfg_val c), Udelay HSDK_PLL_MAX_LOCK_TIME,
            Pll_read CGU_PLL_STATUS 1, Pll_read CGU_PLL_STATUS 1,
            Spc_write CREG_CORE_IF_DIV CREG_CORE_IF_CLK_DIV_1])
   \<and> pll_devdata hdmi_clk \<in> {sdt_pll_devdata, hdmi_pll_devdata}
   \<and> (\<forall>reg val. Spc_write reg val \<notin>
        set (emitted (io_reset 1 1) (snd (hsdk_pll_set_rate hdmi_clk (600000000 :: 32 word) (io_reset 1 1)))))
   \<and> (pll_devdata core_clk = core_pll_devdata \<and> 32 \<le> LENGTH(32)
        \<and> (450000000 :: 32 word) \<le> CORE_IF_CLK_THRESHOLD_HZ)
   \<and> hsdk_pll_round_rate core_clk (450000000 :: 32 word) \<le> CORE_IF_CLK_THRESHOLD_HZ"
proof -
  have 1: "pll_devdata core_clk = core_pll_devdata \<and>
        CORE_IF_CLK_THRESHOLD_HZ < hsdk_pll_round_rate core_clk (600000000 :: 32 word)"
    by (simp add: eval_defs)
  have 2: "pll_devdata core_clk = core_pll_devdata \<and>
        hsdk_pll_round_rate core_clk (400000000 :: 32 word) \<le> CORE_IF_CLK_THRESHOLD_HZ"
    by (simp add: eval_defs)
  have 3: "pll_devdata hdmi_clk \<in> {sdt_pll_devdata, hdmi_pll_devdata}"
    by (simp add: hdmi_clk_def)
  have st: "status0 (io_reset 1 1) = 1" "status1 (io_reset 1 1) = 1"
    "(1 :: u32) AND CGU_PLL_STATUS_LOCK \<noteq> 0" "(1 :: u32) AND CGU_PLL_STATUS_ERR = 0"
    by (simp_all add: status0_def status1_def io_reset_def CGU_PLL_STATUS_LOCK_def CGU_PLL_STATUS_ERR_def BIT_def)
  from set_rate_aux_divider [OF refl, of core_clk "600000000 :: 32 word" "io_reset 1 1"] 1
  have a: "\<exists>c rest. emitted (io_reset 1 1) (snd (hsdk_pll_set_rate core_clk (600000000 :: 32 word) (io_reset 1 1))) =
           Spc_write CREG_CORE_IF_DIV CREG_CORE_IF_CLK_DIV_2 # Pll_write CGU_PLL_CTRL (set_cfg_val c) # rest
         \<and> (\<forall>reg val. Spc_write reg val \<notin> set rest)"
    by blast
  from set_rate_aux_divider [OF refl, of core_clk "400000000 :: 32 word" "io_reset 1 1"] 2
  have b: "\<exists>c. emitted (io_reset 1 1) (snd (hsdk_pll_set_rate core_clk (400000000 :: 32 word) (io_reset 1 1))) =
           [Pll_write CGU_PLL_CTRL (set_cfg_val c), Udelay HSDK_PLL_MAX_LOCK_TIME,
            Pll_read CGU_PLL_STATUS 1, Pll_read CGU_PLL_STATUS 1,
            Spc_write CREG_CORE_IF_DIV CREG_CORE_IF_CLK_DIV_1]"
    by (simp add: st)
  from set_rate_aux_divider [OF refl, of hdmi_clk "600000000 :: 32 word" "io_reset 1 1"] 3
  have c: "\<forall>reg val. Spc_write reg val \<notin>
        set (emitted (io_reset 1 1) (snd (hsdk_pll_set_rate hdmi_clk (600000000 :: 32 word) (io_reset 1 1))))"
    by blast
  have 4: "pll_devdata core_clk = core_pll_devdata \<and> 32 \<le> LENGTH(32)
        \<and> (450000000 :: 32 word) \<le> CORE_IF_CLK_THRESHOLD_HZ"
    by (simp add: core_clk_def CORE_IF_CLK_THRESHOLD_HZ_def)
  from set_rate_aux_divider [OF refl, of core_clk "450000000 :: 32 word" "io_reset 1 1"] 4
  have d: "hsdk_pll_round_rate core_clk (450000000 :: 32 word) \<le> CORE_IF_CLK_THRESHOLD_HZ"
    by blast
  from 1 2 3 4 a b c d show ?thesis by blast
qed

text \<open>
  C2 as stated fails: a request of 510 MHz to the core PLL is above the threshold, but
  matches the 500 MHz entry, so no divide-by-2 write occurs and divide-by-1 is written
  after the lock.
\<close>

theorem set_rate_aux_divider_counterexample:
  "CORE_IF_CLK_THRESHOLD_HZ < (510000000 :: 32 word)
   \<and> hsdk_pll_round_rate core_clk (510000000 :: 32 word) = 500000000
   \<and> emitted (io_reset 1 1) (snd (hsdk_pll_set_rate core_clk (510000000 :: 32 word) (io_reset 1 1)))
     = [Pll_write CGU_PLL_CTRL 0x1C04, Udelay 100, Pll_read CGU_PLL_STATUS 1, Pll_read CGU_PLL_STATUS 1,
        Spc_write CREG_CORE_IF_DIV CREG_CORE_IF_CLK_DIV_1]"
  by (simp add: eval_defs set_cfg_val_def HSDK_PLL_MAX_LOCK_TIME_def CREG_CORE_IF_DIV_def
        CREG_CORE_IF_CLK_DIV_1_def CREG_CORE_IF_CLK_DIV_2_def CGU_PLL_CTRL_IDIV_SHIFT_def
        CGU_PLL_CTRL_FBDIV_SHIFT_def CGU_PLL_CTRL_ODIV_SHIFT_def CGU_PLL_CTRL_BAND_SHIFT_def)

text \<open>
  C3, as amended. On the generic table (generic-system or core variant), for an
  \<open>unsigned long\<close> of at least 32 bits, a request of 250,000,000 Hz makes the matcher
  pick 233,000,000 Hz; when the configuration locks without error,
  \<open>hsdk_pll_set_rate\<close> returns 0 and has programmed idiv=1, fbdiv=27, odiv=2, band=0
  into the control register, and \<open>hsdk_pll_get_rate\<close> then decodes the register to
  233,333,331 Hz.
\<close>

theorem set_rate_250MHz:
  fixes s :: hsdk_io
  assumes "pll_devdata clk = sdt_pll_devdata \<or> pll_devdata clk = core_pll_devdata"
    and L: "32 \<le> LENGTH('l::len)"
  shows "hsdk_pll_round_rate clk (250000000 :: 'l word) = 233000000
         \<and> (status0 s AND CGU_PLL_STATUS_LOCK \<noteq> 0 \<and> status1 s AND CGU_PLL_STATUS_ERR = 0 \<longrightarrow>
              fst (hsdk_pll_set_rate clk (250000000 :: 'l word) s) = 0
              \<and> pll_regs (snd (hsdk_pll_set_rate clk (250000000 :: 'l word) s)) CGU_PLL_CTRL
                  = set_cfg_val (cfg 233000000 1 27 2 0)
              \<and> fst (hsdk_pll_get_rate clk (snd (hsdk_pll_set_rate clk (250000000 :: 'l word) s)))
                  = Some (233333331 :: 'l word))"
proof -
  from assms(1) have t: "pll_cfg (pll_devdata clk) = asdt_pll_cfg"
    by (auto simp: sdt_pll_devdata_def core_pll_devdata_def)
  have rr: "hsdk_pll_round_rate clk (250000000 :: 'l word) = 233000000"
    by (rule round_rate_250MHz [OF t L])
  have ne: "pll_cfg (pll_devdata clk) = hd asdt_pll_cfg # tl asdt_pll_cfg" "rate (hd asdt_pll_cfg) \<noteq> 0"
    by (simp_all add: t asdt_pll_cfg_def cfg_def)
  from set_rate_applies [OF ne, of "250000000 :: 'l word" s] obtain c
    where c: "c \<in> set (table_entries asdt_pll_cfg)" "(ucast (rate c) :: 'l word) = 233000000"
      and sr: "hsdk_pll_set_rate clk (250000000 :: 'l word) s =
         (case call_update_rate clk (233000000 :: 'l word) c s of (ret, s') \<Rightarrow> (scast ret, s'))"
    unfolding t rr by blast
  have ceq: "c = cfg 233000000 1 27 2 0" by (rule ucast_rate_233 [OF L c])
  let ?u = "call_update_rate clk (233000000 :: 'l word) (cfg 233000000 1 27 2 0) s"
  have f: "fst (hsdk_pll_set_rate clk (250000000 :: 'l word) s) = scast (fst ?u)"
    and sn: "snd (hsdk_pll_set_rate clk (250000000 :: 'l word) s) = snd ?u"
    by (simp_all add: sr ceq split_beta)
  have regs: "pll_regs (snd (hsdk_pll_set_rate clk (250000000 :: 'l word) s)) CGU_PLL_CTRL
                  = set_cfg_val (cfg 233000000 1 27 2 0)"
    by (simp only: sn call_update_rate_regs) simp
  have gr: "fst (hsdk_pll_get_rate clk (snd (hsdk_pll_set_rate clk (250000000 :: 'l word) s)))
                  = Some (233333331 :: 'l word)"
    by (simp only: get_rate_of_ctrl [OF regs] decode_233_long)
  have ok: "status0 s AND CGU_PLL_STATUS_LOCK \<noteq> 0 \<and> status1 s AND CGU_PLL_STATUS_ERR = 0 \<Longrightarrow>
      fst (hsdk_pll_set_rate clk (250000000 :: 'l word) s) = 0"
    by (simp add: f call_update_rate_ret)
  from rr regs gr ok show ?thesis by blast
qed

text \<open>The amended C3 for the core PLL; the control word of the entry is 0x3618.\<close>

theorem set_rate_250MHz_witness:
  "(pll_devdata core_clk = sdt_pll_devdata \<or> pll_devdata core_clk = core_pll_devdata)
   \<and> 32 \<le> LENGTH(32)
   \<and> status0 (io_reset 1 1) AND CGU_PLL_STATUS_LOCK \<noteq> 0
   \<and> status1 (io_reset 1 1) AND CGU_PLL_STATUS_ERR = 0
   \<and> hsdk_pll_round_rate core_clk (250000000 :: 32 word) = 233000000
   \<and> fst (hsdk_pll_set_rate core_clk (250000000 :: 32 word) (io_reset 1 1)) = 0
   \<and> pll_regs (snd (hsdk_pll_set_rate core_clk (250000000 :: 32 word) (io_reset 1 1))) CGU_PLL_CTRL = 0x3618
   \<and> fst (hsdk_pll_get_rate core_clk (snd (hsdk_pll_set_rate core_clk (250000000 :: 32 word) (io_reset 1 1))))
        = Some (233333331 :: 32 word)"
proof -
  have v: "pll_devdata core_clk = sdt_pll_devdata \<or> pll_devdata core_clk = core_pll_devdata"
    by (simp add: core_clk_def)
  have L: "32 \<le> LENGTH(32)" by simp
  have st: "status0 (io_reset 1 1) AND CGU_PLL_STATUS_LOCK \<noteq> 0"
    "status1 (io_reset 1 1) AND CGU_PLL_STATUS_ERR = 0"
    by (simp_all add: status0_def status1_def io_reset_def CGU_PLL_STATUS_LOCK_def CGU_PLL_STATUS_ERR_def BIT_def)
  have w: "set_cfg_val (cfg 233000000 1 27 2 0) = 0x3618"
    by (simp add: codec_defs cfg_def)
  from set_rate_250MHz [OF v L, of "io_reset 1 1"] show ?thesis using v st w by simp
qed

text \<open>
  C3 as stated fails: after the successful rate change of the generic-system PLL the
  register decodes to 233,333,331 Hz, not to 233,000,000 Hz.
\<close>

theorem get_rate_after_250MHz_counterexample:
  "hsdk_pll_round_rate sdt_clk (250000000 :: 32 word) = 233000000
   \<and> fst (hsdk_pll_set_rate sdt_clk (250000000 :: 32 word) (io_reset 1 1)) = 0
   \<and> fst (hsdk_pll_get_rate sdt_clk (snd (hsdk_pll_set_rate sdt_clk (250000000 :: 32 word) (io_reset 1 1))))
        = Some (233333331 :: 32 word)
   \<and> Some (233333331 :: 32 word) \<noteq> Some 233000000"
  by (simp add: eval_defs codec_defs)

text \<open>
  C4, as amended. For every entry of the generic rate table, decoding the control word
  that \<open>hsdk_pll_set_cfg\<close> writes for it, with reference frequency 33,333,333 Hz,
  reproduces the entry's rate within integer rounding, from 16 Hz below it to just
  below it, except for the entries with the nominal rates 133, 233 and 333 MHz, which
  decode to 133,333,332, 233,333,331 and 333,333,330 Hz; so every entry decodes to a
  rate from 16 Hz below to 333,332 Hz above its own (for an \<open>unsigned long\<close> of at
  least 32 bits). Nothing is stated for the HDMI table.
\<close>

theorem asdt_decode_encode:
  assumes L: "32 \<le> LENGTH('l::len)"
  shows "\<forall>c \<in> set (table_entries asdt_pll_cfg).
     \<exists>d :: 'l word. fst (hsdk_pll_get_rate clk (hsdk_pll_set_cfg clk c s)) = Some d
       \<and> (rate c \<notin> {133000000, 233000000, 333000000} \<longrightarrow>
            uint (rate c) - 16 \<le> uint d \<and> uint d < uint (rate c))
       \<and> (rate c = 133000000 \<longrightarrow> uint d = 133333332)
       \<and> (rate c = 233000000 \<longrightarrow> uint d = 233333331)
       \<and> (rate c = 333000000 \<longrightarrow> uint d = 333333330)
       \<and> uint (rate c) - 16 \<le> uint d \<and> uint d \<le> uint (rate c) + 333332"
  unfolding get_rate_after_set_cfg
  using long_width(2) [OF L]
  by (simp add: table_entries_def asdt_pll_cfg_def cfg_def cfg_end_def codec_defs io_defs Let_def
      take_bit_int_eq_self)

text \<open>
  The amended C4 for the generic-system PLL after reset: at the 100 MHz entry, which
  decodes within rounding, and at the three entries with nominal rates.
\<close>

theorem asdt_decode_encode_witness:
  "32 \<le> LENGTH(32)
   \<and> cfg 100000000 0 11 3 0 \<in> set (table_entries asdt_pll_cfg)
   \<and> rate (cfg 100000000 0 11 3 0) \<notin> {133000000, 233000000, 333000000}
   \<and> (\<exists>d :: 32 word.
        fst (hsdk_pll_get_rate sdt_clk (hsdk_pll_set_cfg sdt_clk (cfg 100000000 0 11 3 0) (io_reset 0 0))) = Some d
        \<and> uint (rate (cfg 100000000 0 11 3 0)) - 16 \<le> uint d
        \<and> uint d < uint (rate (cfg 100000000 0 11 3 0)))
   \<and> cfg 133000000 0 15 3 0 \<in> set (table_entries asdt_pll_cfg)
   \<and> rate (cfg 133000000 0 15 3 0) = 133000000
   \<and> (\<exists>d :: 32 word.
        fst (hsdk_pll_get_rate sdt_clk (hsdk_pll_set_cfg sdt_clk (cfg 133000000 0 15 3 0) (io_reset 0 0))) = Some d
        \<and> uint d = 133333332)
   \<and> cfg 233000000 1 27 2 0 \<in> set (table_entries asdt_pll_cfg)
   \<and> rate (cfg 233000000 1 27 2 0) = 233000000
   \<and> (\<exists>d :: 32 word.
        fst (hsdk_pll_get_rate sdt_clk (hsdk_pll_set_cfg sdt_clk (cfg 233000000 1 27 2 0) (io_reset 0 0))) = Some d
        \<and> uint d = 233333331)
   \<and> cfg 333000000 1 39 2 0 \<in> set (table_entries asdt_pll_cfg)
   \<and> rate (cfg 333000000 1 39 2 0) = 333000000
   \<and> (\<exists>d :: 32 word.
        fst (hsdk_pll_get_rate sdt_clk (hsdk_pll_set_cfg sdt_clk (cfg 333000000 1 39 2 0) (io_reset 0 0))) = Some d
        \<and> uint d = 333333330)"
proof -
  have L: "32 \<le> LENGTH(32)" by simp
  have m: "cfg 100000000 0 11 3 0 \<in> set (table_entries asdt_pll_cfg)"
    "cfg 133000000 0 15 3 0 \<in> set (table_entries asdt_pll_cfg)"
    "cfg 233000000 1 27 2 0 \<in> set (table_entries asdt_pll_cfg)"
    "cfg 333000000 1 39 2 0 \<in> set (table_entries asdt_pll_cfg)"
    by (simp_all add: table_entries_def asdt_pll_cfg_def cfg_def)
  have r: "rate (cfg 100000000 0 11 3 0) \<notin> {133000000, 233000000, 333000000}"
    "rate (cfg 133000000 0 15 3 0) = 133000000"
    "rate (cfg 233000000 1 27 2 0) = 233000000"
    "rate (cfg 333000000 1 39 2 0) = 333000000"
    by (simp_all add: cfg_def)
  note t = asdt_decode_encode [OF L, of sdt_clk "io_reset 0 0", THEN bspec]
  from t [OF m(1)] r(1) have a: "\<exists>d :: 32 word.
        fst (hsdk_pll_get_rate sdt_clk (hsdk_pll_set_cfg sdt_clk (cfg 100000000 0 11 3 0) (io_reset 0 0))) = Some d
        \<and> uint (rate (cfg 100000000 0 11 3 0)) - 16 \<le> uint d
        \<and> uint d < uint (rate (cfg 100000000 0 11 3 0))"
    by blast
  from t [OF m(2)] r(2) have b: "\<exists>d :: 32 word.
        fst (hsdk_pll_get_rate sdt_clk (hsdk_pll_set_cfg sdt_clk (cfg 133000000 0 15 3 0) (io_reset 0 0))) = Some d
        \<and> uint d = 133333332"
    by blast
  from t [OF m(3)] r(3) have c: "\<exists>d :: 32 word.
        fst (hsdk_pll_get_rate sdt_clk (hsdk_pll_set_cfg sdt_clk (cfg 233000000 1 27 2 0) (io_reset 0 0))) = Some d
        \<and> uint d = 233333331"
    by blast
  from t [OF m(4)] r(4) have d: "\<exists>d :: 32 word.
        fst (hsdk_pll_get_rate sdt_clk (hsdk_pll_set_cfg sdt_clk (cfg 333000000 1 39 2 0) (io_reset 0 0))) = Some d
        \<and> uint d = 333333330"
    by blast
  from L m r a b c d show ?thesis by blast
qed

text \<open>
  C4 as stated fails on the generic table: the 133 MHz entry decodes to 133,333,332 Hz,
  333,332 Hz above its rate, and integer rounding has no part in it, since the
  division of the decoder leaves no remainder there.
\<close>

theorem asdt_133MHz_decode_counterexample:
  "cfg 133000000 0 15 3 0 \<in> set (table_entries asdt_pll_cfg)
   \<and> fst (hsdk_pll_get_rate sdt_clk (hsdk_pll_set_cfg sdt_clk (cfg 133000000 0 15 3 0) (io_reset 0 0)))
        = Some (133333332 :: 32 word)
   \<and> uint (133333332 :: 32 word) - uint (rate (cfg 133000000 0 15 3 0)) = 333332
   \<and> (PARENT_RATE :: u64) * ucast (get_rate_fbdiv (set_cfg_val (cfg 133000000 0 15 3 0)))
        mod ucast (get_rate_idiv (set_cfg_val (cfg 133000000 0 15 3 0))
                   * get_rate_odiv (set_cfg_val (cfg 133000000 0 15 3 0))) = 0"
  unfolding get_rate_after_set_cfg
  by (simp add: table_entries_def asdt_pll_cfg_def cfg_def cfg_end_def codec_defs io_defs Let_def)

text \<open>
  C5 at a failing input. A request of 4,000,000,000 Hz on the generic table, with a
  32-bit \<open>unsigned long\<close>, returns 100,000,000 Hz although the 1,600,000,000 Hz entry
  is strictly closer (2,400,000,000 against 3,900,000,000): the difference wraps when
  it is read as a \<open>long\<close>. With a 64-bit \<open>unsigned long\<close> the same happens at the
  largest request.
\<close>

theorem round_rate_far_request:
  "hsdk_pll_round_rate sdt_clk (4000000000 :: 32 word) = 100000000
   \<and> cfg 1600000000 1 47 0 0 \<in> set (table_entries (pll_cfg (pll_devdata sdt_clk)))
   \<and> rate_dist (4000000000 :: 32 word) (cfg 1600000000 1 47 0 0) = 2400000000
   \<and> rate_dist (4000000000 :: 32 word) (cfg 100000000 0 11 3 0) = 3900000000
   \<and> hsdk_pll_round_rate sdt_clk (0xFFFFFFFFFFFFFFFF :: 64 word) = 100000000"
  by (simp add: eval_defs table_entries_def rate_dist_def)

text \<open>
  C6. For each of the three variants and every request: if the status register shows
  the lock bit clear at the read after the 100 microsecond wait, \<open>hsdk_pll_set_rate\<close>
  returns \<open>-ETIMEDOUT\<close> (LockTimeout) and no divide-by-1 write to the auxiliary
  register occurs, whatever the rate: the accesses end with the write of the control
  register, the wait and that status read. If the register shows the lock bit set and
  then the error bit set, \<open>hsdk_pll_set_rate\<close> returns \<open>-EINVAL\<close> (HardwareError),
  again without the divide-by-1 write.
\<close>

theorem set_rate_lock_failures:
  assumes "pll_devdata clk \<in> {core_pll_devdata, sdt_pll_devdata, hdmi_pll_devdata}"
  shows "(status0 s AND CGU_PLL_STATUS_LOCK = 0 \<longrightarrow>
            fst (hsdk_pll_set_rate clk r s) = (- ETIMEDOUT :: 'l::len word)
            \<and> Spc_write CREG_CORE_IF_DIV CREG_CORE_IF_CLK_DIV_1
                 \<notin> set (emitted s (snd (hsdk_pll_set_rate clk r s)))
            \<and> (\<exists>c pre. emitted s (snd (hsdk_pll_set_rate clk r s)) =
                  pre @ [Pll_write CGU_PLL_CTRL (set_cfg_val c), Udelay HSDK_PLL_MAX_LOCK_TIME,
                         Pll_read CGU_PLL_STATUS (status0 s)]
                \<and> (pre = [] \<or> pre = [Spc_write CREG_CORE_IF_DIV CREG_CORE_IF_CLK_DIV_2])))
         \<and> (status0 s AND CGU_PLL_STATUS_LOCK \<noteq> 0 \<and> status1 s AND CGU_PLL_STATUS_ERR \<noteq> 0 \<longrightarrow>
              fst (hsdk_pll_set_rate clk r s) = - EINVAL
              \<and> Spc_write CREG_CORE_IF_DIV CREG_CORE_IF_CLK_DIV_1
                 \<notin> set (emitted s (snd (hsdk_pll_set_rate clk r s))))"
proof -
  from variant_nonempty [OF assms] obtain c0 cs
    where ne: "pll_cfg (pll_devdata clk) = c0 # cs" "rate c0 \<noteq> 0" by blast
  from set_rate_applies [OF ne, of r s]
  obtain c where c: "hsdk_pll_set_rate clk r s =
         (case call_update_rate clk (hsdk_pll_round_rate clk r) c s of
            (ret, s') \<Rightarrow> (scast ret, s'))"
    by blast
  let ?u = "call_update_rate clk (hsdk_pll_round_rate clk r) c s"
  from c have f: "fst (hsdk_pll_set_rate clk r s) = scast (fst ?u)"
    and t: "snd (hsdk_pll_set_rate clk r s) = snd ?u"
    by (simp_all add: split_beta)
  have tr: "status0 s AND CGU_PLL_STATUS_LOCK = 0 \<Longrightarrow>
      \<exists>c pre. emitted s (snd ?u) =
                  pre @ [Pll_write CGU_PLL_CTRL (set_cfg_val c), Udelay HSDK_PLL_MAX_LOCK_TIME,
                         Pll_read CGU_PLL_STATUS (status0 s)]
                \<and> (pre = [] \<or> pre = [Spc_write CREG_CORE_IF_DIV CREG_CORE_IF_CLK_DIV_2])"
    using call_update_rate_timeout_trace [of s clk "hsdk_pll_round_rate clk r" c] by blast
  show ?thesis
    unfolding f t call_update_rate_ret
    using tr
    by (simp add: scast_neg_errno call_update_rate_timeout_no_div1 call_update_rate_err_no_div1)
qed

text \<open>
  C6 for a request of 400 MHz to the core PLL: once with a status register that never
  shows lock, once with one that shows lock and the error bit.
\<close>

theorem set_rate_lock_failures_witness:
  "pll_devdata core_clk \<in> {core_pll_devdata, sdt_pll_devdata, hdmi_pll_devdata}
   \<and> status0 (io_reset 0 0) AND CGU_PLL_STATUS_LOCK = 0
   \<and> fst (hsdk_pll_set_rate core_clk (400000000 :: 32 word) (io_reset 0 0)) = - 110
   \<and> Spc_write CREG_CORE_IF_DIV CREG_CORE_IF_CLK_DIV_1
        \<notin> set (emitted (io_reset 0 0) (snd (hsdk_pll_set_rate core_clk (400000000 :: 32 word) (io_reset 0 0))))
   \<and> status0 (io_reset 1 3) AND CGU_PLL_STATUS_LOCK \<noteq> 0
   \<and> status1 (io_reset 1 3) AND CGU_PLL_STATUS_ERR \<noteq> 0
   \<and> fst (hsdk_pll_set_rate core_clk (400000000 :: 32 word) (io_reset 1 3)) = - 22"
proof -
  have v: "pll_devdata core_clk \<in> {core_pll_devdata, sdt_pll_devdata, hdmi_pll_devdata}"
    by (simp add: core_clk_def)
  have s: "status0 (io_reset 0 0) AND CGU_PLL_STATUS_LOCK = 0"
    "status0 (io_reset 1 3) AND CGU_PLL_STATUS_LOCK \<noteq> 0"
    "status1 (io_reset 1 3) AND CGU_PLL_STATUS_ERR \<noteq> 0"
    by (simp_all add: status0_def status1_def io_reset_def CGU_PLL_STATUS_LOCK_def CGU_PLL_STATUS_ERR_def BIT_def)
  from set_rate_lock_failures [OF v, of "io_reset 0 0" "400000000 :: 32 word"]
       set_rate_lock_failures [OF v, of "io_reset 1 3" "400000000 :: 32 word"]
  show ?thesis using v s by (simp add: ETIMEDOUT_def EINVAL_def)
qed

text \<open>
  C7. For every content of the control register, \<open>hsdk_pll_get_rate\<close> returns 0 when
  the powerdown bit (bit 0) is set, and returns exactly the reference frequency
  33,333,333 Hz when the bypass bit (bit 1) is set, whatever the other fields are. The
  powerdown test comes first, so the second case is that of a register whose powerdown
  bit is clear.
\<close>

theorem get_rate_powerdown_bypass:
  "(bit (pll_regs s CGU_PLL_CTRL) 0 \<longrightarrow> fst (hsdk_pll_get_rate clk s) = Some (0 :: 'l::len word))
   \<and> (\<not> bit (pll_regs s CGU_PLL_CTRL) 0 \<and> bit (pll_regs s CGU_PLL_CTRL) 1 \<longrightarrow>
        fst (hsdk_pll_get_rate clk s) = Some (PARENT_RATE :: 'l word))"
  by (simp add: get_rate_pd get_rate_bypass)

text \<open>
  C7 at two registers with every field set: one with only the bypass bit clear, one
  with only the powerdown bit clear.
\<close>

theorem get_rate_powerdown_bypass_witness:
  "bit (pll_regs ((io_reset 0 0)\<lparr>pll_regs := (\<lambda>_. 0xFFFFFFFD)\<rparr>) CGU_PLL_CTRL) 0
   \<and> fst (hsdk_pll_get_rate sdt_clk ((io_reset 0 0)\<lparr>pll_regs := (\<lambda>_. 0xFFFFFFFD)\<rparr>)) = Some (0 :: 32 word)
   \<and> \<not> bit (pll_regs ((io_reset 0 0)\<lparr>pll_regs := (\<lambda>_. 0xFFFFFFFE)\<rparr>) CGU_PLL_CTRL) 0
   \<and> bit (pll_regs ((io_reset 0 0)\<lparr>pll_regs := (\<lambda>_. 0xFFFFFFFE)\<rparr>) CGU_PLL_CTRL) 1
   \<and> fst (hsdk_pll_get_rate sdt_clk ((io_reset 0 0)\<lparr>pll_regs := (\<lambda>_. 0xFFFFFFFE)\<rparr>)) = Some (33333333 :: 32 word)"
  using get_rate_powerdown_bypass [of "(io_reset 0 0)\<lparr>pll_regs := (\<lambda>_. 0xFFFFFFFD)\<rparr>" sdt_clk, where 'l = 32]
        get_rate_powerdown_bypass [of "(io_reset 0 0)\<lparr>pll_regs := (\<lambda>_. 0xFFFFFFFE)\<rparr>" sdt_clk, where 'l = 32]
  by (simp add: io_reset_def PARENT_RATE_def)

text \<open>
  C8. The probe of a core-clock instance whose auxiliary register base is absent (the
  null pointer) returns \<open>-ENOENT\<close>, which is not 0, so the driver framework gets no
  usable instance; with an auxiliary base the same probe returns 0. The probes of the
  generic-system and the HDMI variant return 0 without an auxiliary base, whatever the
  main base is.
\<close>

theorem probe_core_needs_spec_regs:
  "fst (hsdk_pll_clk_probe core_pll_devdata addr0 0) = - ENOENT
   \<and> (- ENOENT :: cint) \<noteq> 0
   \<and> fst (hsdk_pll_clk_probe core_pll_devdata addr0 0xF0001000) = 0
   \<and> hsdk_pll_clk_probe sdt_pll_devdata addr0 0 =
       (0, \<lparr>regs = addr0, spec_regs = 0, pll_devdata = sdt_pll_devdata\<rparr>)
   \<and> hsdk_pll_clk_probe hdmi_pll_devdata addr0 0 =
       (0, \<lparr>regs = addr0, spec_regs = 0, pll_devdata = hdmi_pll_devdata\<rparr>)"
  by (simp add: hsdk_pll_clk_probe_def core_pll_devdata_def sdt_pll_devdata_def hdmi_pll_devdata_def ENOENT_def)

text \<open>
  C9. \<open>hsdk_pll_get_rate\<close> returns a rate for every content of the control register:
  it has no failing path, and the divisor \<open>idiv * odiv\<close> of its division is never zero.
  The input divider is the field plus one, the output divider a power of two, both at
  least 1, and their 32-bit product does not wrap.
\<close>

theorem get_rate_total:
  "(\<exists>r. fst (hsdk_pll_get_rate clk s :: 'l::len word option \<times> hsdk_io) = Some r)
   \<and> unat (get_rate_idiv val)
       = unat (drop_bit CGU_PLL_CTRL_IDIV_SHIFT (val AND CGU_PLL_CTRL_IDIV_MASK)) + 1
   \<and> unat (get_rate_odiv val)
       = 2 ^ unat (drop_bit CGU_PLL_CTRL_ODIV_SHIFT (val AND CGU_PLL_CTRL_ODIV_MASK))
   \<and> 1 \<le> unat (get_rate_idiv val) \<and> 1 \<le> unat (get_rate_odiv val)
   \<and> unat (get_rate_idiv val * get_rate_odiv val) = unat (get_rate_idiv val) * unat (get_rate_odiv val)
   \<and> 1 \<le> unat (get_rate_idiv val * get_rate_odiv val)"
proof -
  have fi: "unat (get_rate_idiv val)
       = unat (drop_bit CGU_PLL_CTRL_IDIV_SHIFT (val AND CGU_PLL_CTRL_IDIV_MASK)) + 1"
    by (simp only: unat_get_rate_idiv mask_values CGU_PLL_CTRL_IDIV_SHIFT_def)
  have fo: "unat (get_rate_odiv val)
       = 2 ^ unat (drop_bit CGU_PLL_CTRL_ODIV_SHIFT (val AND CGU_PLL_CTRL_ODIV_MASK))"
    by (simp only: unat_get_rate_odiv mask_values CGU_PLL_CTRL_ODIV_SHIFT_def)
  have i: "1 \<le> unat (get_rate_idiv val)" by (simp add: unat_get_rate_idiv)
  have o: "1 \<le> unat (get_rate_odiv val)" by (simp add: unat_get_rate_odiv)
  have "1 * 1 \<le> unat (get_rate_idiv val) * unat (get_rate_odiv val)"
    using i o by (rule mult_le_mono)
  then have p: "1 \<le> unat (get_rate_idiv val * get_rate_odiv val)" by (simp add: unat_divisor)
  from get_rate_some [of clk s] fi fo i o p unat_divisor [of val] show ?thesis by blast
qed

text \<open>
  C10. For every non-empty rate table and every requested frequency, the rate
  \<open>hsdk_pll_round_rate\<close> returns is the rate of an entry of the table, the lookup
  loop of \<open>hsdk_pll_set_rate\<close> finds such an entry and returns what \<open>update_rate\<close>
  returns for it, and the fallback after the loop, which prints the error message, is
  not reached.
\<close>

theorem set_rate_lookup_finds_entry:
  assumes "pll_cfg (pll_devdata clk) = c0 # cs" and "rate c0 \<noteq> 0"
  shows "(\<exists>c \<in> set (table_entries (pll_cfg (pll_devdata clk))).
            ucast (rate c) = (hsdk_pll_round_rate clk r :: 'l::len word) \<and>
            hsdk_pll_set_rate clk r s =
              (case call_update_rate clk (hsdk_pll_round_rate clk r) c s of
                 (ret, s') \<Rightarrow> (scast ret, s')))
         \<and> Pr_err \<notin> set (emitted s (snd (hsdk_pll_set_rate clk r s)))"
proof -
  from set_rate_applies [OF assms, of r s]
  obtain c where c: "c \<in> set (table_entries (pll_cfg (pll_devdata clk)))"
      "ucast (rate c) = hsdk_pll_round_rate clk r"
      "hsdk_pll_set_rate clk r s =
         (case call_update_rate clk (hsdk_pll_round_rate clk r) c s of
            (ret, s') \<Rightarrow> (scast ret, s'))"
    by blast
  from c(3) have "snd (hsdk_pll_set_rate clk r s)
      = snd (call_update_rate clk (hsdk_pll_round_rate clk r) c s)"
    by (simp add: split_beta)
  then have "Pr_err \<notin> set (emitted s (snd (hsdk_pll_set_rate clk r s)))"
    by (simp add: call_update_rate_no_pr_err)
  with c show ?thesis by blast
qed

text \<open>C10 for a request of 250 MHz to the generic-system PLL.\<close>

theorem set_rate_lookup_finds_entry_witness:
  "pll_cfg (pll_devdata sdt_clk) = hd asdt_pll_cfg # tl asdt_pll_cfg
   \<and> rate (hd asdt_pll_cfg) \<noteq> 0
   \<and> hsdk_pll_round_rate sdt_clk (250000000 :: 32 word) = 233000000
   \<and> Pr_err \<notin> set (emitted (io_reset 1 1)
         (snd (hsdk_pll_set_rate sdt_clk (250000000 :: 32 word) (io_reset 1 1))))"
proof -
  have r: "hsdk_pll_round_rate sdt_clk (250000000 :: 32 word) = 233000000"
    by (simp add: eval_defs)
  from set_rate_lookup_finds_entry [OF table_facts(1) table_facts(3), of "250000000 :: 32 word" "io_reset 1 1"]
  show ?thesis using table_facts r by blast
qed

section \<open>Further properties\<close>

text \<open>
  X1. The matcher is right wherever the differences fit a \<open>long\<close>. For every non-empty
  rate table whose rates are below half the range of \<open>unsigned long\<close>, and every
  request below it, \<open>hsdk_pll_round_rate\<close> returns the rate of a table entry that no
  entry is closer to the request than, and every earlier entry is strictly farther
  away: ties go to the earliest entry.
\<close>

theorem round_rate_nearest:
  fixes r :: "'l::len word"
  assumes ne: "pll_cfg (pll_devdata clk) = c0 # cs" "rate c0 \<noteq> 0"
    and r: "uint r < 2 ^ (LENGTH('l) - 1)"
    and es: "\<forall>c \<in> set (table_entries (pll_cfg (pll_devdata clk))). uint (rate c) < 2 ^ (LENGTH('l) - 1)"
  shows "\<exists>i < length (table_entries (pll_cfg (pll_devdata clk))).
           hsdk_pll_round_rate clk r = ucast (rate (table_entries (pll_cfg (pll_devdata clk)) ! i))
           \<and> (\<forall>j < length (table_entries (pll_cfg (pll_devdata clk))).
                 rate_dist r (table_entries (pll_cfg (pll_devdata clk)) ! i)
                 \<le> rate_dist r (table_entries (pll_cfg (pll_devdata clk)) ! j))
           \<and> (\<forall>j < i.
                 rate_dist r (table_entries (pll_cfg (pll_devdata clk)) ! i)
                 < rate_dist r (table_entries (pll_cfg (pll_devdata clk)) ! j))"
proof -
  let ?es = "table_entries (pll_cfg (pll_devdata clk))"
  let ?b = "ucast (rate c0) :: 'l word"
  let ?res = "round_rate_loop cs r ?b"
  have te: "?es = c0 # table_entries cs" using ne by (simp add: table_entries_def)
  have r': "uint r < 2 ^ (LENGTH('l) - Suc 0)" using r by simp
  have bound: "\<And>c. c \<in> set ?es \<Longrightarrow> uint (rate c) < 2 ^ (LENGTH('l) - Suc 0)" using es by simp
  have c0b: "uint (rate c0) < 2 ^ (LENGTH('l) - Suc 0)" by (rule bound) (simp add: te)
  have rest: "\<forall>c \<in> set (table_entries cs). uint (rate c) < 2 ^ (LENGTH('l) - Suc 0)"
    using bound by (simp add: te)
  have b: "uint ?b < 2 ^ (LENGTH('l) - Suc 0)" using c0b by (simp only: uint_ucast_rate [OF c0b])
  have rr: "hsdk_pll_round_rate clk r = ?res" using ne by (simp add: hsdk_pll_round_rate_def)
  have D: "\<And>c. c \<in> set ?es \<Longrightarrow> long_dist r (ucast (rate c)) = rate_dist r c"
    by (rule long_dist_ucast) (rule bound)
  have nth_in: "\<And>j. j < length ?es \<Longrightarrow> ?es ! j \<in> set ?es" by simp
  from round_rate_loop_nearest [OF r' b rest]
  have all: "\<forall>c \<in> set (table_entries cs). long_dist r ?res \<le> long_dist r (ucast (rate c))"
    and which: "?res = ?b \<or> (\<exists>i < length (table_entries cs).
                 ?res = ucast (rate (table_entries cs ! i))
                 \<and> long_dist r ?res < long_dist r ?b
                 \<and> (\<forall>j < i. long_dist r ?res < long_dist r (ucast (rate (table_entries cs ! j)))))"
    by blast+
  have c0D: "long_dist r ?b = rate_dist r c0" by (rule D) (simp add: te)
  have allD: "\<And>c. c \<in> set (table_entries cs) \<Longrightarrow> long_dist r ?res \<le> rate_dist r c"
  proof -
    fix c assume c: "c \<in> set (table_entries cs)"
    then have "c \<in> set ?es" by (simp add: te)
    from all c have "long_dist r ?res \<le> long_dist r (ucast (rate c))" by blast
    with D [OF \<open>c \<in> set ?es\<close>] show "long_dist r ?res \<le> rate_dist r c" by simp
  qed
  from which show ?thesis
  proof
    assume eq: "?res = ?b"
    have "\<forall>j < length ?es. rate_dist r (?es ! 0) \<le> rate_dist r (?es ! j)"
    proof (intro allI impI)
      fix j assume j: "j < length ?es"
      show "rate_dist r (?es ! 0) \<le> rate_dist r (?es ! j)"
      proof (cases j)
        case 0
        then show ?thesis by simp
      next
        case (Suc k)
        with j have "table_entries cs ! k \<in> set (table_entries cs)" by (simp add: te)
        from allD [OF this] eq c0D Suc show ?thesis by (simp add: te)
      qed
    qed
    with eq rr show ?thesis by (intro exI [of _ 0]) (simp add: te)
  next
    assume "\<exists>i < length (table_entries cs).
                 ?res = ucast (rate (table_entries cs ! i))
                 \<and> long_dist r ?res < long_dist r ?b
                 \<and> (\<forall>j < i. long_dist r ?res < long_dist r (ucast (rate (table_entries cs ! j))))"
    then obtain i where i: "i < length (table_entries cs)"
        "?res = ucast (rate (table_entries cs ! i))"
        "long_dist r ?res < long_dist r ?b"
        "\<forall>j < i. long_dist r ?res < long_dist r (ucast (rate (table_entries cs ! j)))"
      by blast
    have ii: "table_entries cs ! i \<in> set ?es" using i(1) by (simp add: te)
    have resD: "long_dist r ?res = rate_dist r (table_entries cs ! i)"
      using D [OF ii] i(2) by simp
    have A: "\<forall>j < length ?es. rate_dist r (?es ! Suc i) \<le> rate_dist r (?es ! j)"
    proof (intro allI impI)
      fix j assume j: "j < length ?es"
      show "rate_dist r (?es ! Suc i) \<le> rate_dist r (?es ! j)"
      proof (cases j)
        case 0
        with i(3) c0D resD show ?thesis by (simp add: te)
      next
        case (Suc k)
        with j have "table_entries cs ! k \<in> set (table_entries cs)" by (simp add: te)
        from allD [OF this] resD Suc show ?thesis by (simp add: te)
      qed
    qed
    have B: "\<forall>j < Suc i. rate_dist r (?es ! Suc i) < rate_dist r (?es ! j)"
    proof (intro allI impI)
      fix j assume j: "j < Suc i"
      show "rate_dist r (?es ! Suc i) < rate_dist r (?es ! j)"
      proof (cases j)
        case 0
        with i(3) c0D resD show ?thesis by (simp add: te)
      next
        case (Suc k)
        with j have k: "k < i" by simp
        with i(1) have "table_entries cs ! k \<in> set ?es" by (simp add: te)
        from i(4) k have "long_dist r ?res < long_dist r (ucast (rate (table_entries cs ! k)))" by blast
        with D [OF \<open>table_entries cs ! k \<in> set ?es\<close>] resD Suc show ?thesis by (simp add: te)
      qed
    qed
    from A B i(1,2) rr show ?thesis by (intro exI [of _ "Suc i"]) (simp add: te)
  qed
qed

text \<open>The same for a request of 250 MHz on the generic table, with a 32-bit \<open>unsigned long\<close>.\<close>

theorem round_rate_nearest_witness:
  "pll_cfg (pll_devdata sdt_clk) = hd asdt_pll_cfg # tl asdt_pll_cfg
   \<and> rate (hd asdt_pll_cfg) \<noteq> 0
   \<and> uint (250000000 :: 32 word) < 2 ^ (LENGTH(32) - 1)
   \<and> (\<forall>c \<in> set (table_entries (pll_cfg (pll_devdata sdt_clk))). uint (rate c) < 2 ^ (LENGTH(32) - 1))
   \<and> hsdk_pll_round_rate sdt_clk (250000000 :: 32 word) = 233000000
   \<and> (\<exists>i < length (table_entries (pll_cfg (pll_devdata sdt_clk))).
         hsdk_pll_round_rate sdt_clk (250000000 :: 32 word)
           = ucast (rate (table_entries (pll_cfg (pll_devdata sdt_clk)) ! i))
         \<and> (\<forall>j < length (table_entries (pll_cfg (pll_devdata sdt_clk))).
               rate_dist (250000000 :: 32 word) (table_entries (pll_cfg (pll_devdata sdt_clk)) ! i)
               \<le> rate_dist (250000000 :: 32 word) (table_entries (pll_cfg (pll_devdata sdt_clk)) ! j))
         \<and> (\<forall>j < i.
               rate_dist (250000000 :: 32 word) (table_entries (pll_cfg (pll_devdata sdt_clk)) ! i)
               < rate_dist (250000000 :: 32 word) (table_entries (pll_cfg (pll_devdata sdt_clk)) ! j)))"
proof -
  have r: "uint (250000000 :: 32 word) < 2 ^ (LENGTH(32) - 1)" by simp
  have t: "pll_cfg (pll_devdata sdt_clk) = asdt_pll_cfg" by (simp add: sdt_clk_def sdt_pll_devdata_def)
  have es: "\<forall>c \<in> set (table_entries (pll_cfg (pll_devdata sdt_clk))). uint (rate c) < 2 ^ (LENGTH(32) - 1)"
    unfolding t by (rule asdt_entries_fit_long)
  have v: "hsdk_pll_round_rate sdt_clk (250000000 :: 32 word) = 233000000"
    by (simp add: eval_defs)
  from round_rate_nearest [OF table_facts(1) table_facts(3) r es]
  show ?thesis using table_facts r es v by blast
qed

end
